theory Spec2Isabelle
  imports Complex_Main "HOL-Library.Word"
begin

section \<open>Strings of UTF-16 code units\<close>

text \<open>
  A JavaScript string is a sequence of 16-bit code units; \<open>length\<close>, \<open>indexOf\<close>,
  \<open>slice\<close> and a regular expression without the \<open>u\<close> flag all count code units.
  String literals of the source are written as lists of their code units.
\<close>

type_synonym jschar = "16 word"
type_synonym jsstring = "jschar list"

subsection \<open>Japanese character ratio\<close>

text \<open>
  The character class of \<open>JAPANESE_REGEX\<close>: Hiragana 3040-309F, Katakana 30A0-30FF,
  CJK Unified Ideographs 4E00-9FFF, CJK symbols and punctuation 3000-303F.
\<close>

definition isJapaneseChar :: "jschar \<Rightarrow> bool" where
  "isJapaneseChar c \<longleftrightarrow>
     (0x3040 \<le> c \<and> c \<le> 0x309F) \<or> (0x30A0 \<le> c \<and> c \<le> 0x30FF) \<or>
     (0x4E00 \<le> c \<and> c \<le> 0x9FFF) \<or> (0x3000 \<le> c \<and> c \<le> 0x303F)"

text \<open>
  \<open>calculateJapaneseRatio\<close>: the number of matches of the global regular expression
  divided by the number of code units; 0 on the empty string. The quotient of the two
  counts is kept as a rational number.
\<close>

definition calculateJapaneseRatio :: "jsstring \<Rightarrow> rat" where
  "calculateJapaneseRatio text =
     (if length text = 0 then 0
      else of_nat (length (filter isJapaneseChar text)) / of_nat (length text))"

section \<open>Shared types\<close>

text \<open>
  \<open>Token\<close>, \<open>Sentence\<close> and \<open>DiagnosticInfo\<close> of \<open>shared/types.ts\<close>. Offsets are
  non-negative integers. Field names that are Isabelle keywords or library constants carry
  a suffix (\<open>length_t\<close>, \<open>text_s\<close>, \<open>start_s\<close>, \<open>end_s\<close>, \<open>start_d\<close>, \<open>end_d\<close>).
\<close>

record token =
  surface :: jsstring
  pos :: jsstring
  posDetail1 :: jsstring
  posDetail2 :: jsstring
  posDetail3 :: jsstring
  conjugationType :: jsstring
  conjugationForm :: jsstring
  baseForm :: jsstring
  reading :: jsstring
  pronunciation :: jsstring
  offset :: nat
  length_t :: nat

record sentence =
  text_s :: jsstring
  start_s :: nat
  end_s :: nat
  tokens :: "token list"

record position =
  line :: nat
  character :: nat

text \<open>
  The message of a diagnostic is a template literal of the source; the model keeps the
  template and the values interpolated into it:
  comma-limit (limit, commaCount), adversative-ga (maxCount, count),
  duplicate-particle (surface), adjacent-particles, conjunction-repeat (surface),
  ra-dropping.
\<close>

datatype message =
  CommaLimitMessage int nat
| AdversativeGaMessage int nat
| DuplicateParticleMessage jsstring
| AdjacentParticlesMessage
| ConjunctionRepeatMessage jsstring
| RaDroppingMessage

record diagnostic =
  start_d :: position
  end_d :: position
  message :: message
  severity :: nat
  code :: string
  source :: string

record rules =
  commaLimit :: bool
  commaLimitMax :: int
  adversativeGa :: bool
  adversativeGaMax :: int
  duplicateParticle :: bool
  adjacentParticles :: bool
  conjunctionRepeat :: bool
  raDropping :: bool

record config =
  enable :: bool
  targetLanguages :: "string list"
  minJapaneseRatio :: rat
  rules :: rules

section \<open>Grammar rules (grammar.ts)\<close>

subsection \<open>Offsets to positions\<close>

definition isHighSurrogate :: "jschar \<Rightarrow> bool" where
  "isHighSurrogate c \<longleftrightarrow> 0xD800 \<le> c \<and> c \<le> 0xDBFF"

definition isLowSurrogate :: "jschar \<Rightarrow> bool" where
  "isLowSurrogate c \<longleftrightarrow> 0xDC00 \<le> c \<and> c \<le> 0xDFFF"

text \<open>
  \<open>offsetToPosition\<close> iterates the string by code points (\<open>for (const char of text)\<close>):
  a high surrogate followed by a low surrogate is one \<open>char\<close> of length 2, every other
  code unit is a \<open>char\<close> of length 1. The loop stops as soon as \<open>currentOffset >= offset\<close>.
  The arguments of the loop are the rest of the text, the target offset, \<open>line\<close>,
  \<open>character\<close> and \<open>currentOffset\<close>.
\<close>

fun offsetToPosition_loop :: "jsstring \<Rightarrow> nat \<Rightarrow> nat \<Rightarrow> nat \<Rightarrow> nat \<Rightarrow> position" where
  "offsetToPosition_loop [] off lin ch cur = \<lparr>line = lin, character = ch\<rparr>"
| "offsetToPosition_loop [c] off lin ch cur =
     (if cur \<ge> off then \<lparr>line = lin, character = ch\<rparr>
      else if c = 0x0A then \<lparr>line = lin + 1, character = 0\<rparr>
      else \<lparr>line = lin, character = ch + 1\<rparr>)"
| "offsetToPosition_loop (c # d # cs) off lin ch cur =
     (if cur \<ge> off then \<lparr>line = lin, character = ch\<rparr>
      else if isHighSurrogate c \<and> isLowSurrogate d
        then offsetToPosition_loop cs off lin (ch + 1) (cur + 2)
      else if c = 0x0A then offsetToPosition_loop (d # cs) off (lin + 1) 0 (cur + 1)
      else offsetToPosition_loop (d # cs) off lin (ch + 1) (cur + 1))"

definition offsetToPosition :: "jsstring \<Rightarrow> nat \<Rightarrow> position" where
  "offsetToPosition text off = offsetToPosition_loop text off 0 0 0"

subsection \<open>Token predicates\<close>

text \<open>
  The string literals of the source, as code units: \<open>joshi\<close> (particle) 52A9 8A5E,
  \<open>setsuzoku-joshi\<close> (connective particle) 63A5 7D9A 52A9 8A5E, \<open>ga\<close> 304C,
  \<open>setsuzokushi\<close> (conjunction) 63A5 7D9A 8A5E, \<open>doushi\<close> (verb) 52D5 8A5E,
  \<open>jiritsu\<close> (self-standing) 81EA 7ACB, \<open>ichidan\<close> (one-step conjugation) 4E00 6BB5,
  \<open>mizenkei\<close> (incomplete form) 672A 7136 5F62, \<open>setsubi\<close> (suffix) 63A5 5C3E,
  \<open>reru\<close> 308C 308B, \<open>koreru\<close> 6765 308C 308B, \<open>mireru\<close> 898B 308C 308B,
  the Japanese comma 3001, \<open>kigou\<close> (symbol) 8A18 53F7.
\<close>

definition isParticle :: "token \<Rightarrow> bool" where
  "isParticle t \<longleftrightarrow> pos t = [0x52A9, 0x8A5E]"

definition isAdversativeGa :: "token \<Rightarrow> bool" where
  "isAdversativeGa t \<longleftrightarrow>
     pos t = [0x52A9, 0x8A5E] \<and> posDetail1 t = [0x63A5, 0x7D9A, 0x52A9, 0x8A5E] \<and>
     baseForm t = [0x304C]"

definition isConjunction :: "token \<Rightarrow> bool" where
  "isConjunction t \<longleftrightarrow> pos t = [0x63A5, 0x7D9A, 0x8A5E]"

text \<open>\<open>getParticleKey\<close>: the template \<open>pos,posDetail1\<close>, joined by an ASCII comma.\<close>

definition getParticleKey :: "token \<Rightarrow> jsstring" where
  "getParticleKey t = pos t @ [0x2C] @ posDetail1 t"

definition isTargetVerb :: "token \<Rightarrow> bool" where
  "isTargetVerb t \<longleftrightarrow>
     pos t = [0x52D5, 0x8A5E] \<and> posDetail1 t = [0x81EA, 0x7ACB] \<and>
     conjugationType t = [0x4E00, 0x6BB5] \<and> conjugationForm t = [0x672A, 0x7136, 0x5F62]"

definition isRaWord :: "token \<Rightarrow> bool" where
  "isRaWord t \<longleftrightarrow>
     pos t = [0x52D5, 0x8A5E] \<and> posDetail1 t = [0x63A5, 0x5C3E] \<and>
     baseForm t = [0x308C, 0x308B]"

definition isSpecialRaCase :: "token \<Rightarrow> bool" where
  "isSpecialRaCase t \<longleftrightarrow>
     pos t = [0x52D5, 0x8A5E] \<and>
     (baseForm t = [0x6765, 0x308C, 0x308B] \<or> baseForm t = [0x898B, 0x308C, 0x308B])"

definition countCommas :: "jsstring \<Rightarrow> nat" where
  "countCommas text = length (filter (\<lambda>c. c = 0x3001) text)"

text \<open>The diagnostic every rule pushes: severity 2, source \<open>wakame\<close>, positions from offsets.\<close>

definition mkDiagnostic :: "jsstring \<Rightarrow> nat \<Rightarrow> nat \<Rightarrow> message \<Rightarrow> string \<Rightarrow> diagnostic" where
  "mkDiagnostic text startOffset endOffset msg c =
     \<lparr>start_d = offsetToPosition text startOffset, end_d = offsetToPosition text endOffset,
      message = msg, severity = 2, code = c, source = ''wakame''\<rparr>"

subsection \<open>comma-limit\<close>

text \<open>
  Each rule scans with a \<open>for\<close> loop and pushes onto \<open>diagnostics\<close>; the model of a
  loop returns the diagnostics pushed from the current position on, in push order.
\<close>

fun checkCommaLimit_loop :: "jsstring \<Rightarrow> int \<Rightarrow> sentence list \<Rightarrow> diagnostic list" where
  "checkCommaLimit_loop text limit [] = []"
| "checkCommaLimit_loop text limit (s # ss) =
     (let commaCount = countCommas (text_s s) in
      (if int commaCount > limit
       then [mkDiagnostic text (start_s s) (end_s s) (CommaLimitMessage limit commaCount)
               ''comma-limit'']
       else []) @ checkCommaLimit_loop text limit ss)"

definition checkCommaLimit :: "jsstring \<Rightarrow> sentence list \<Rightarrow> config \<Rightarrow> diagnostic list" where
  "checkCommaLimit text sentences cfg =
     (if \<not> commaLimit (rules cfg) then []
      else checkCommaLimit_loop text (commaLimitMax (rules cfg)) sentences)"

subsection \<open>adversative-ga\<close>

fun countAdversativeGa :: "nat \<Rightarrow> token list \<Rightarrow> nat" where
  "countAdversativeGa count [] = count"
| "countAdversativeGa count (t # ts) =
     countAdversativeGa (if isAdversativeGa t then count + 1 else count) ts"

fun checkAdversativeGa_loop :: "jsstring \<Rightarrow> int \<Rightarrow> sentence list \<Rightarrow> diagnostic list" where
  "checkAdversativeGa_loop text maxCount [] = []"
| "checkAdversativeGa_loop text maxCount (s # ss) =
     (let count = countAdversativeGa 0 (tokens s) in
      (if int count > maxCount
       then [mkDiagnostic text (start_s s) (end_s s) (AdversativeGaMessage maxCount count)
               ''adversative-ga'']
       else []) @ checkAdversativeGa_loop text maxCount ss)"

definition checkAdversativeGa :: "jsstring \<Rightarrow> sentence list \<Rightarrow> config \<Rightarrow> diagnostic list" where
  "checkAdversativeGa text sentences cfg =
     (if \<not> adversativeGa (rules cfg) then []
      else checkAdversativeGa_loop text (adversativeGaMax (rules cfg)) sentences)"

subsection \<open>duplicate-particle\<close>

text \<open>
  The inner loop over the tokens of one sentence carries \<open>lastSurface\<close>, \<open>lastKey\<close>,
  \<open>lastToken\<close> (\<open>null\<close> is \<open>None\<close>) and \<open>streak\<close>; a token that is not a particle is
  skipped by \<open>continue\<close> and leaves them unchanged.
\<close>

fun checkDuplicateParticle_tokens ::
  "jsstring \<Rightarrow> jsstring \<Rightarrow> jsstring \<Rightarrow> token option \<Rightarrow> nat \<Rightarrow> token list \<Rightarrow> diagnostic list" where
  "checkDuplicateParticle_tokens text lastSurface lastKey lastToken streak [] = []"
| "checkDuplicateParticle_tokens text lastSurface lastKey lastToken streak (t # ts) =
     (if \<not> isParticle t
      then checkDuplicateParticle_tokens text lastSurface lastKey lastToken streak ts
      else
        let currentKey = getParticleKey t in
        (case lastToken of
           Some lt \<Rightarrow>
             if surface t = lastSurface \<and> currentKey = lastKey
             then
               (if streak + 1 > 1
                then [mkDiagnostic text (offset lt) (offset t + length (surface t))
                        (DuplicateParticleMessage (surface t)) ''duplicate-particle'']
                else []) @
               checkDuplicateParticle_tokens text (surface t) currentKey (Some t) (streak + 1) ts
             else checkDuplicateParticle_tokens text (surface t) currentKey (Some t) 1 ts
         | None \<Rightarrow> checkDuplicateParticle_tokens text (surface t) currentKey (Some t) 1 ts))"

fun checkDuplicateParticle_loop :: "jsstring \<Rightarrow> sentence list \<Rightarrow> diagnostic list" where
  "checkDuplicateParticle_loop text [] = []"
| "checkDuplicateParticle_loop text (s # ss) =
     checkDuplicateParticle_tokens text [] [] None 1 (tokens s) @
     checkDuplicateParticle_loop text ss"

definition checkDuplicateParticle :: "jsstring \<Rightarrow> sentence list \<Rightarrow> config \<Rightarrow> diagnostic list" where
  "checkDuplicateParticle text sentences cfg =
     (if \<not> duplicateParticle (rules cfg) then []
      else checkDuplicateParticle_loop text sentences)"

subsection \<open>adjacent-particles\<close>

text \<open>
  The inner loop carries \<open>prevIsParticle\<close>, \<open>prevKey\<close>, \<open>prevToken\<close> and \<open>streak\<close>.
  \<open>isAdjacent\<close> is false while \<open>prevToken\<close> is \<open>null\<close>; \<open>prevToken\<close> and \<open>prevKey\<close>
  are updated at particles only.
\<close>

fun checkAdjacentParticles_tokens ::
  "jsstring \<Rightarrow> bool \<Rightarrow> jsstring \<Rightarrow> token option \<Rightarrow> nat \<Rightarrow> token list \<Rightarrow> diagnostic list" where
  "checkAdjacentParticles_tokens text prevIsParticle prevKey prevToken streak [] = []"
| "checkAdjacentParticles_tokens text prevIsParticle prevKey prevToken streak (t # ts) =
     (let currentIsParticle = isParticle t;
          currentKey = getParticleKey t;
          isAdjacent = (case prevToken of
                          None \<Rightarrow> False
                        | Some pt \<Rightarrow> offset t = offset pt + length (surface pt));
          hit = (currentIsParticle \<and> prevIsParticle \<and> currentKey = prevKey \<and> isAdjacent);
          streak' = (if hit then streak + 1 else 1);
          pushed = (case prevToken of
                      Some pt \<Rightarrow>
                        if hit \<and> streak' > 1
                        then [mkDiagnostic text (offset pt) (offset t + length (surface t))
                                AdjacentParticlesMessage ''adjacent-particles'']
                        else []
                    | None \<Rightarrow> [])
      in pushed @
         checkAdjacentParticles_tokens text currentIsParticle
           (if currentIsParticle then currentKey else prevKey)
           (if currentIsParticle then Some t else prevToken) streak' ts)"

fun checkAdjacentParticles_loop :: "jsstring \<Rightarrow> sentence list \<Rightarrow> diagnostic list" where
  "checkAdjacentParticles_loop text [] = []"
| "checkAdjacentParticles_loop text (s # ss) =
     checkAdjacentParticles_tokens text False [] None 1 (tokens s) @
     checkAdjacentParticles_loop text ss"

definition checkAdjacentParticles :: "jsstring \<Rightarrow> sentence list \<Rightarrow> config \<Rightarrow> diagnostic list" where
  "checkAdjacentParticles text sentences cfg =
     (if \<not> adjacentParticles (rules cfg) then []
      else checkAdjacentParticles_loop text sentences)"

subsection \<open>conjunction-repeat\<close>

text \<open>
  \<open>slice text a b\<close> is \<open>text.slice(a, b)\<close> for non-negative arguments: the code units
  from \<open>a\<close> up to \<open>b\<close>, both clamped to the length, empty when \<open>b \<le> a\<close>.
\<close>

definition slice :: "jsstring \<Rightarrow> nat \<Rightarrow> nat \<Rightarrow> jsstring" where
  "slice text a b = take (b - a) (drop a text)"

fun flattenTokens :: "sentence list \<Rightarrow> token list" where
  "flattenTokens [] = []"
| "flattenTokens (s # ss) = tokens s @ flattenTokens ss"

fun checkConjunctionRepeat_tokens ::
  "jsstring \<Rightarrow> jsstring \<Rightarrow> token option \<Rightarrow> nat \<Rightarrow> token list \<Rightarrow> diagnostic list" where
  "checkConjunctionRepeat_tokens text lastSurface lastToken streak [] = []"
| "checkConjunctionRepeat_tokens text lastSurface lastToken streak (t # ts) =
     (if \<not> isConjunction t
      then checkConjunctionRepeat_tokens text lastSurface lastToken streak ts
      else
        (case lastToken of
           Some lt \<Rightarrow>
             let separatedByNewline =
                   (0x0A \<in> set (slice text (offset lt + length (surface lt)) (offset t)))
             in
             if surface t = lastSurface \<and> \<not> separatedByNewline
             then
               (if streak + 1 > 1
                then [mkDiagnostic text (offset lt) (offset t + length (surface t))
                        (ConjunctionRepeatMessage (surface t)) ''conjunction-repeat'']
                else []) @
               checkConjunctionRepeat_tokens text (surface t) (Some t) (streak + 1) ts
             else checkConjunctionRepeat_tokens text (surface t) (Some t) 1 ts
         | None \<Rightarrow> checkConjunctionRepeat_tokens text (surface t) (Some t) 1 ts))"

definition checkConjunctionRepeat :: "jsstring \<Rightarrow> sentence list \<Rightarrow> config \<Rightarrow> diagnostic list" where
  "checkConjunctionRepeat text sentences cfg =
     (if \<not> conjunctionRepeat (rules cfg) then []
      else checkConjunctionRepeat_tokens text [] None 1 (flattenTokens sentences))"

subsection \<open>ra-dropping\<close>

text \<open>
  Per sentence two loops run one after the other: the first pushes a diagnostic for every
  token that is a special case, the second for every token that is the \<open>reru\<close> suffix
  while \<open>prevToken\<close> is a target verb.
\<close>

fun checkRaDropping_special :: "jsstring \<Rightarrow> token list \<Rightarrow> diagnostic list" where
  "checkRaDropping_special text [] = []"
| "checkRaDropping_special text (t # ts) =
     (if isSpecialRaCase t
      then [mkDiagnostic text (offset t) (offset t + length (surface t))
              RaDroppingMessage ''ra-dropping'']
      else []) @ checkRaDropping_special text ts"

fun checkRaDropping_pairs :: "jsstring \<Rightarrow> token option \<Rightarrow> token list \<Rightarrow> diagnostic list" where
  "checkRaDropping_pairs text prevToken [] = []"
| "checkRaDropping_pairs text prevToken (t # ts) =
     (case prevToken of
        Some pt \<Rightarrow>
          if isTargetVerb pt \<and> isRaWord t
          then [mkDiagnostic text (offset pt) (offset t + length (surface t))
                  RaDroppingMessage ''ra-dropping'']
          else []
      | None \<Rightarrow> []) @ checkRaDropping_pairs text (Some t) ts"

fun checkRaDropping_loop :: "jsstring \<Rightarrow> sentence list \<Rightarrow> diagnostic list" where
  "checkRaDropping_loop text [] = []"
| "checkRaDropping_loop text (s # ss) =
     checkRaDropping_special text (tokens s) @ checkRaDropping_pairs text None (tokens s) @
     checkRaDropping_loop text ss"

definition checkRaDropping :: "jsstring \<Rightarrow> sentence list \<Rightarrow> config \<Rightarrow> diagnostic list" where
  "checkRaDropping text sentences cfg =
     (if \<not> raDropping (rules cfg) then []
      else checkRaDropping_loop text sentences)"

subsection \<open>checkGrammar\<close>

definition checkGrammar :: "jsstring \<Rightarrow> sentence list \<Rightarrow> config \<Rightarrow> diagnostic list" where
  "checkGrammar text sentences cfg =
     checkCommaLimit text sentences cfg @
     checkAdversativeGa text sentences cfg @
     checkDuplicateParticle text sentences cfg @
     checkAdjacentParticles text sentences cfg @
     checkConjunctionRepeat text sentences cfg @
     checkRaDropping text sentences cfg"

section \<open>Analyzer (analyzer.ts)\<close>

subsection \<open>Tokenizer state and initialization\<close>

text \<open>
  The backend is the tokenizer object built by the dictionary loader; its \<open>tokenize\<close>
  method maps a text to records with a surface form and nullable features. \<open>None\<close> as
  its result stands for an exception thrown by the backend.
\<close>

record kuromoji_token =
  surface_form :: jsstring
  pos_raw :: "jsstring option"
  pos_detail_1 :: "jsstring option"
  pos_detail_2 :: "jsstring option"
  pos_detail_3 :: "jsstring option"
  conjugated_type :: "jsstring option"
  conjugated_form :: "jsstring option"
  basic_form :: "jsstring option"
  reading_raw :: "jsstring option"
  pronunciation_raw :: "jsstring option"

type_synonym backend = "jsstring \<Rightarrow> kuromoji_token list option"

datatype error = TokenizerNotInitialized | BuildFailed | BackendFailed

text \<open>
  A promise is modelled by the way it settles: \<open>build\<close> callback with an error
  (\<open>Rejected\<close>) or with the built tokenizer (\<open>Resolved\<close>), which the callback stores in
  \<open>tokenizer\<close> before resolving.
\<close>

datatype build_promise = Rejected | Resolved backend

record analyzer =
  tokenizer :: "backend option"
  initPromise :: "build_promise option"

definition awaitInit :: "build_promise \<Rightarrow> analyzer \<Rightarrow> (error + unit) \<times> analyzer" where
  "awaitInit p st =
     (case p of
        Rejected \<Rightarrow> (Inl BuildFailed, st)
      | Resolved built \<Rightarrow> (Inr (), st\<lparr>tokenizer := Some built\<rparr>))"

text \<open>
  \<open>initializeTokenizer\<close>: returns at once when the tokenizer exists, awaits the promise
  in flight when there is one, and otherwise starts the build (whose outcome is the
  argument \<open>build\<close>), stores its promise and awaits it.
\<close>

definition initializeTokenizer :: "analyzer \<Rightarrow> build_promise \<Rightarrow> (error + unit) \<times> analyzer" where
  "initializeTokenizer st build =
     (case tokenizer st of
        Some _ \<Rightarrow> (Inr (), st)
      | None \<Rightarrow>
          (case initPromise st of
             Some p \<Rightarrow> awaitInit p st
           | None \<Rightarrow> awaitInit build (st\<lparr>initPromise := Some build\<rparr>)))"

definition isTokenizerReady :: "analyzer \<Rightarrow> bool" where
  "isTokenizerReady st \<longleftrightarrow> tokenizer st \<noteq> None"

subsection \<open>tokenize\<close>

text \<open>
  \<open>text.indexOf(pat, from)\<close> for a non-negative \<open>from\<close>: the start position is clamped
  to the length of the text; the result is the first position at or after it where \<open>pat\<close>
  occurs, or \<open>-1\<close>. The empty pattern occurs at every position up to the length.
\<close>

definition startsWith :: "'a list \<Rightarrow> 'a list \<Rightarrow> bool" where
  "startsWith s pat \<longleftrightarrow> take (length pat) s = pat"

fun indexOf_loop :: "jsstring \<Rightarrow> jsstring \<Rightarrow> nat \<Rightarrow> int" where
  "indexOf_loop [] pat k = (if pat = [] then int k else - 1)"
| "indexOf_loop (c # cs) pat k =
     (if startsWith (c # cs) pat then int k else indexOf_loop cs pat (k + 1))"

definition indexOf :: "jsstring \<Rightarrow> jsstring \<Rightarrow> nat \<Rightarrow> int" where
  "indexOf text pat from =
     (let start = min from (length text) in indexOf_loop (drop start text) pat start)"

text \<open>
  \<open>Buffer.byteLength(s, 'utf-8')\<close>: a surrogate pair encodes in 4 bytes, a code unit below
  80 in 1, below 800 in 2, any other (a lone surrogate is replaced by FFFD) in 3.
\<close>

definition utf8_unit :: "jschar \<Rightarrow> nat" where
  "utf8_unit c = (if c < 0x80 then 1 else if c < 0x800 then 2 else 3)"

fun byteLength :: "jsstring \<Rightarrow> nat" where
  "byteLength [] = 0"
| "byteLength [c] = utf8_unit c"
| "byteLength (c # d # cs) =
     (if isHighSurrogate c \<and> isLowSurrogate d then 4 + byteLength cs
      else utf8_unit c + byteLength (d # cs))"

definition orElse :: "'a option \<Rightarrow> 'a \<Rightarrow> 'a" where
  "orElse x d = (case x of Some v \<Rightarrow> v | None \<Rightarrow> d)"

text \<open>The loop of \<open>tokenize\<close> over the backend's records, with the cursor \<open>currentOffset\<close>.\<close>

fun tokenize_loop :: "jsstring \<Rightarrow> nat \<Rightarrow> kuromoji_token list \<Rightarrow> token list" where
  "tokenize_loop text currentOffset [] = []"
| "tokenize_loop text currentOffset (kt # kts) =
     (let tokenStart = indexOf text (surface_form kt) currentOffset;
          off = (if tokenStart \<ge> 0 then nat tokenStart else currentOffset)
      in \<lparr>surface = surface_form kt,
          pos = orElse (pos_raw kt) [0x2A],
          posDetail1 = orElse (pos_detail_1 kt) [0x2A],
          posDetail2 = orElse (pos_detail_2 kt) [0x2A],
          posDetail3 = orElse (pos_detail_3 kt) [0x2A],
          conjugationType = orElse (conjugated_type kt) [0x2A],
          conjugationForm = orElse (conjugated_form kt) [0x2A],
          baseForm = orElse (basic_form kt) (surface_form kt),
          reading = orElse (reading_raw kt) [],
          pronunciation = orElse (pronunciation_raw kt) [],
          offset = off,
          length_t = byteLength (surface_form kt)\<rparr>
         # tokenize_loop text (off + length (surface_form kt)) kts)"

definition tokenize :: "analyzer \<Rightarrow> jsstring \<Rightarrow> error + token list" where
  "tokenize st text =
     (case tokenizer st of
        None \<Rightarrow> Inl TokenizerNotInitialized
      | Some tk \<Rightarrow>
          (case tk text of
             None \<Rightarrow> Inl BackendFailed
           | Some kuromojiTokens \<Rightarrow> Inr (tokenize_loop text 0 kuromojiTokens)))"

subsection \<open>splitSentences\<close>

text \<open>The sentence enders: ideographic full stop, fullwidth and ASCII ! and ?, newline.\<close>

definition sentenceEnders :: "jsstring list" where
  "sentenceEnders = [[0x3002], [0xFF01], [0xFF1F], [0x21], [0x3F], [0x0A]]"

definition isSentenceEnd :: "token \<Rightarrow> bool" where
  "isSentenceEnd t \<longleftrightarrow>
     surface t \<in> set sentenceEnders \<or>
     (pos t = [0x8A18, 0x53F7] \<and> surface t \<in> set sentenceEnders)"

definition mkSentence :: "jsstring \<Rightarrow> nat \<Rightarrow> nat \<Rightarrow> token list \<Rightarrow> sentence" where
  "mkSentence text currentStart sentenceEnd currentTokens =
     \<lparr>text_s = slice text currentStart sentenceEnd, start_s = currentStart,
      end_s = sentenceEnd, tokens = currentTokens\<rparr>"

text \<open>
  The loop carries \<open>currentStart\<close> and \<open>currentTokens\<close>; the first equation is the code
  after the loop, which turns a non-empty rest into the final sentence.
\<close>

fun splitSentences_loop :: "jsstring \<Rightarrow> nat \<Rightarrow> token list \<Rightarrow> token list \<Rightarrow> sentence list" where
  "splitSentences_loop text currentStart currentTokens [] =
     (if length currentTokens > 0
      then (let lastToken = last currentTokens;
                sentenceEnd = offset lastToken + length (surface lastToken)
            in [mkSentence text currentStart sentenceEnd currentTokens])
      else [])"
| "splitSentences_loop text currentStart currentTokens (t # ts) =
     (let currentTokens' = currentTokens @ [t] in
      if isSentenceEnd t
      then (let sentenceEnd = offset t + length (surface t)
            in mkSentence text currentStart sentenceEnd currentTokens'
               # splitSentences_loop text sentenceEnd [] ts)
      else splitSentences_loop text currentStart currentTokens' ts)"

definition splitSentences :: "jsstring \<Rightarrow> token list \<Rightarrow> sentence list" where
  "splitSentences text toks = splitSentences_loop text 0 [] toks"

definition analyze :: "analyzer \<Rightarrow> jsstring \<Rightarrow> error + (token list \<times> sentence list)" where
  "analyze st text =
     (case tokenize st text of
        Inl e \<Rightarrow> Inl e
      | Inr toks \<Rightarrow> Inr (toks, splitSentences text toks))"

section \<open>Comment extraction\<close>

subsection \<open>Regular expressions on code units\<close>

text \<open>
  The character class \<open>\s\<close>, which is also the set that \<open>trim\<close> removes: tab, line
  feed, vertical tab, form feed, carriage return, space, A0, 1680, 2000-200A, 2028, 2029,
  202F, 205F, 3000, FEFF. The line terminators, which \<open>.\<close> does not match and after which
  \<open>^\<close> matches under the \<open>m\<close> flag: line feed, carriage return, 2028, 2029.
\<close>

definition isWhiteSpace :: "jschar \<Rightarrow> bool" where
  "isWhiteSpace c \<longleftrightarrow>
     (0x09 \<le> c \<and> c \<le> 0x0D) \<or> c = 0x20 \<or> c = 0xA0 \<or> c = 0x1680 \<or>
     (0x2000 \<le> c \<and> c \<le> 0x200A) \<or> c = 0x2028 \<or> c = 0x2029 \<or> c = 0x202F \<or>
     c = 0x205F \<or> c = 0x3000 \<or> c = 0xFEFF"

definition isLineTerminator :: "jschar \<Rightarrow> bool" where
  "isLineTerminator c \<longleftrightarrow> c = 0x0A \<or> c = 0x0D \<or> c = 0x2028 \<or> c = 0x2029"

definition trim :: "jsstring \<Rightarrow> jsstring" where
  "trim s = rev (dropWhile isWhiteSpace (rev (dropWhile isWhiteSpace s)))"

definition endsWith :: "'a list \<Rightarrow> 'a list \<Rightarrow> bool" where
  "endsWith s pat \<longleftrightarrow> length pat \<le> length s \<and> drop (length s - length pat) s = pat"

text \<open>
  \<open>s.replace(/^MARK\s*/, '')\<close>: without the \<open>m\<close> flag \<open>^\<close> is the start of the string;
  the marker and the white space after it are removed.
  \<open>s.replace(/\s*MARK$/, '')\<close>: \<open>$\<close> is the end of the string; the leftmost match
  starts at the white space run in front of the final marker.
\<close>

definition stripPrefixWs :: "jsstring \<Rightarrow> jsstring \<Rightarrow> jsstring" where
  "stripPrefixWs mark s =
     (if startsWith s mark then dropWhile isWhiteSpace (drop (length mark) s) else s)"

definition stripSuffixWs :: "jsstring \<Rightarrow> jsstring \<Rightarrow> jsstring" where
  "stripSuffixWs mark s =
     (if endsWith s mark
      then rev (dropWhile isWhiteSpace (rev (take (length s - length mark) s)))
      else s)"

text \<open>
  \<open>s.replace(/^\s*\*\s?/gm, '')\<close>. The flag says whether \<open>^\<close> matches at the current
  position (the start of the string, or after a line terminator). There the expression
  matches iff the white space run is followed by an asterisk; the match takes the run, the
  asterisk and one more white space character if there is one, and the search goes on
  behind it. Without a match nothing up to the next line terminator can match.
\<close>

function stripLineStars :: "bool \<Rightarrow> jsstring \<Rightarrow> jsstring" where
  "stripLineStars atStart [] = []"
| "stripLineStars atStart (c # cs) =
     (if atStart
      then
        (case dropWhile isWhiteSpace (c # cs) of
           [] \<Rightarrow> c # cs
         | d # ds \<Rightarrow>
             if d = 0x2A
             then
               (case ds of
                  [] \<Rightarrow> []
                | e # es \<Rightarrow>
                    if isWhiteSpace e then stripLineStars (isLineTerminator e) es
                    else stripLineStars False (e # es))
             else takeWhile isWhiteSpace (c # cs) @ d # stripLineStars False ds)
      else c # stripLineStars (isLineTerminator c) cs)"
  by pat_completeness auto
termination
proof (relation "measure (\<lambda>(atStart, s). length s)")
  show "wf (measure (\<lambda>(atStart, s). length s))" by simp
next
  fix atStart :: bool and c :: jschar and cs d ds e es
  assume "dropWhile isWhiteSpace (c # cs) = d # ds" and "ds = e # es"
  then have "length (d # e # es) \<le> length (c # cs)"
    by (metis length_dropWhile_le)
  then show "((isLineTerminator e, es), atStart, c # cs) \<in> measure (\<lambda>(atStart, s). length s)"
    by simp
next
  fix atStart :: bool and c :: jschar and cs d ds e es
  assume "dropWhile isWhiteSpace (c # cs) = d # ds" and "ds = e # es"
  then have "length (d # e # es) \<le> length (c # cs)"
    by (metis length_dropWhile_le)
  then show "((False, e # es), atStart, c # cs) \<in> measure (\<lambda>(atStart, s). length s)"
    by simp
next
  fix atStart :: bool and c :: jschar and cs d ds
  assume "dropWhile isWhiteSpace (c # cs) = d # ds"
  then have "length (d # ds) \<le> length (c # cs)"
    by (metis length_dropWhile_le)
  then show "((False, ds), atStart, c # cs) \<in> measure (\<lambda>(atStart, s). length s)"
    by simp
next
  fix atStart :: bool and c :: jschar and cs
  show "((isLineTerminator c, cs), atStart, c # cs) \<in> measure (\<lambda>(atStart, s). length s)"
    by simp
qed

text \<open>
  The matches of a global regular expression, as the loop over \<open>regex.exec(text)\<close> sees
  them: pairs of \<open>match.index\<close> and \<open>match[0]\<close>. The scan goes through the text position
  by position; \<open>skip\<close> counts the code units of the last match still to be passed.

  \<open>lineMatches mark\<close> is \<open>/MARK(.*)$/gm\<close>: a match starts at the marker and runs to the
  end of the line.
\<close>

fun lineMatches :: "jsstring \<Rightarrow> nat \<Rightarrow> nat \<Rightarrow> jsstring \<Rightarrow> (nat \<times> jsstring) list" where
  "lineMatches mark skip k [] = []"
| "lineMatches mark skip k (c # cs) =
     (if skip > 0 then lineMatches mark (skip - 1) (k + 1) cs
      else if startsWith (c # cs) mark
      then (let m = mark @ takeWhile (\<lambda>x. \<not> isLineTerminator x) (drop (length mark) (c # cs))
            in (k, m) # lineMatches mark (length m - 1) (k + 1) cs)
      else lineMatches mark 0 (k + 1) cs)"

text \<open>\<open>findFirst pat s\<close>: the first position where \<open>pat\<close> occurs in \<open>s\<close>.\<close>

fun findFirst :: "'a list \<Rightarrow> 'a list \<Rightarrow> nat option" where
  "findFirst pat [] = (if pat = [] then Some 0 else None)"
| "findFirst pat (c # cs) =
     (if startsWith (c # cs) pat then Some 0 else map_option Suc (findFirst pat cs))"

text \<open>
  \<open>blockMatches opn cls\<close> is \<open>/OPEN[\s\S]*?CLOSE/g\<close>: a match starts at the opening
  marker and ends with the first closing marker behind it; an opening marker without a
  closing one is no match, and the scan goes on at the next position.
\<close>

fun blockMatches ::
  "jsstring \<Rightarrow> jsstring \<Rightarrow> nat \<Rightarrow> nat \<Rightarrow> jsstring \<Rightarrow> (nat \<times> jsstring) list" where
  "blockMatches opn cls skip k [] = []"
| "blockMatches opn cls skip k (c # cs) =
     (if skip > 0 then blockMatches opn cls (skip - 1) (k + 1) cs
      else if startsWith (c # cs) opn
      then
        (case findFirst cls (drop (length opn) (c # cs)) of
           Some j \<Rightarrow>
             (let m = take (length opn + j + length cls) (c # cs)
              in (k, m) # blockMatches opn cls (length m - 1) (k + 1) cs)
         | None \<Rightarrow> blockMatches opn cls 0 (k + 1) cs)
      else blockMatches opn cls 0 (k + 1) cs)"

datatype pattern = LinePattern jsstring | BlockPattern jsstring jsstring

fun execAll :: "pattern \<Rightarrow> jsstring \<Rightarrow> (nat \<times> jsstring) list" where
  "execAll (LinePattern mark) text = lineMatches mark 0 0 text"
| "execAll (BlockPattern opn cls) text = blockMatches opn cls 0 0 text"

subsection \<open>Regex strategy (extractComments)\<close>

record commentRange =
  start_c :: nat
  end_c :: nat
  text_c :: jsstring
  original :: jsstring

text \<open>
  The patterns per language id: \<open>//\<close> and \<open>/* */\<close> for the C family, \<open>#\<close> and the two
  triple quotes for Python, \<open><!-- -->\<close> for HTML, \<open>%\<close> for LaTeX. Language ids are ASCII
  identifiers. A language id without an entry gives no comments.
\<close>

definition cFamilyPatterns :: "pattern list" where
  "cFamilyPatterns = [LinePattern [0x2F, 0x2F], BlockPattern [0x2F, 0x2A] [0x2A, 0x2F]]"

definition patterns :: "string \<Rightarrow> pattern list option" where
  "patterns languageId =
     (if languageId \<in> set [''javascript'', ''typescript'', ''javascriptreact'',
                             ''typescriptreact'', ''rust'', ''c'', ''cpp'']
      then Some cFamilyPatterns
      else if languageId = ''python''
      then Some [LinePattern [0x23], BlockPattern [0x27, 0x27, 0x27] [0x27, 0x27, 0x27],
                 BlockPattern [0x22, 0x22, 0x22] [0x22, 0x22, 0x22]]
      else if languageId = ''html''
      then Some [BlockPattern [0x3C, 0x21, 0x2D, 0x2D] [0x2D, 0x2D, 0x3E]]
      else if languageId = ''latex''
      then Some [LinePattern [0x25]]
      else None)"

text \<open>The chain of eleven replacements that removes the comment markers.\<close>

definition removeMarkers :: "jsstring \<Rightarrow> jsstring" where
  "removeMarkers orig =
     stripSuffixWs [0x22, 0x22, 0x22]
       (stripPrefixWs [0x22, 0x22, 0x22]
         (stripSuffixWs [0x27, 0x27, 0x27]
           (stripPrefixWs [0x27, 0x27, 0x27]
             (stripSuffixWs [0x2D, 0x2D, 0x3E]
               (stripPrefixWs [0x3C, 0x21, 0x2D, 0x2D]
                 (stripPrefixWs [0x25]
                   (stripPrefixWs [0x23]
                     (stripSuffixWs [0x2A, 0x2F]
                       (stripPrefixWs [0x2F, 0x2A]
                         (stripPrefixWs [0x2F, 0x2F] orig))))))))))"

text \<open>The body of the \<open>while\<close> loop for one match: the comment is kept iff the ratio of
  the extracted text is greater than 0.1.\<close>

definition regexCandidate :: "nat \<times> jsstring \<Rightarrow> commentRange list" where
  "regexCandidate m =
     (let orig = snd m; extracted = removeMarkers orig in
      if calculateJapaneseRatio extracted > 1 / 10
      then [\<lparr>start_c = fst m, end_c = fst m + length orig, text_c = extracted,
              original = orig\<rparr>]
      else [])"

definition extractComments :: "jsstring \<Rightarrow> string \<Rightarrow> commentRange list" where
  "extractComments text languageId =
     (case patterns languageId of
        None \<Rightarrow> []
      | Some langPatterns \<Rightarrow>
          concat (map (\<lambda>p. concat (map regexCandidate (execAll p text))) langPatterns))"

subsection \<open>AST strategy (treeSitterExtractor.ts)\<close>

text \<open>
  A node of the syntax tree, as far as the extractor reads it: \<open>type\<close>, \<open>text\<close>,
  \<open>startIndex\<close>, \<open>endIndex\<close> and the children. Node types are ASCII identifiers.
\<close>

datatype node =
  Node (nodeType: string) (nodeText: jsstring) (startIndex: nat) (endIndex: nat)
    (children: "node list")

definition commentNodeTypes :: "string \<Rightarrow> string list" where
  "commentNodeTypes languageId =
     (if languageId \<in> set [''javascript'', ''javascriptreact'', ''typescript'',
                             ''typescriptreact'']
      then [''comment'', ''line_comment'', ''block_comment'']
      else if languageId = ''python'' then [''comment'', ''string'']
      else if languageId \<in> set [''c'', ''cpp'', ''html''] then [''comment'']
      else [])"

text \<open>\<open>toLowerCase\<close> on an ASCII identifier.\<close>

definition toLowerChar :: "char \<Rightarrow> char" where
  "toLowerChar c =
     (if 65 \<le> (of_char c :: nat) \<and> (of_char c :: nat) \<le> 90
      then char_of ((of_char c :: nat) + 32) else c)"

definition includesSub :: "'a list \<Rightarrow> 'a list \<Rightarrow> bool" where
  "includesSub s pat \<longleftrightarrow> findFirst pat s \<noteq> None"

definition isCommentNode :: "string \<Rightarrow> string \<Rightarrow> bool" where
  "isCommentNode ntype languageId \<longleftrightarrow>
     ntype \<in> set (commentNodeTypes languageId) \<or>
     includesSub (map toLowerChar ntype) ''comment''"

definition isPythonDocstring :: "node \<Rightarrow> bool" where
  "isPythonDocstring n \<longleftrightarrow>
     (if nodeType n \<noteq> ''string'' \<and> nodeType n \<noteq> ''string_content'' then False
      else startsWith (nodeText n) [0x22, 0x22, 0x22] \<or>
           startsWith (nodeText n) [0x27, 0x27, 0x27])"

text \<open>
  \<open>sanitizeComment\<close>: the replacements of the \<open>switch\<close> on the language id, then
  \<open>trim\<close>. In the Python case the two triple quotes are the alternatives of one
  expression, the single quotes first.
\<close>

definition sanitizeComment :: "jsstring \<Rightarrow> string \<Rightarrow> jsstring" where
  "sanitizeComment text languageId =
     trim
       (if languageId \<in> set [''javascript'', ''javascriptreact'', ''typescript'',
                               ''typescriptreact'', ''c'', ''cpp'']
        then stripLineStars True
               (stripSuffixWs [0x2A, 0x2F]
                 (stripPrefixWs [0x2F, 0x2A] (stripPrefixWs [0x2F, 0x2F] text)))
        else if languageId = ''python''
        then
          (let s1 = stripPrefixWs [0x23] text;
               s2 = (if startsWith s1 [0x27, 0x27, 0x27] then stripPrefixWs [0x27, 0x27, 0x27] s1
                     else stripPrefixWs [0x22, 0x22, 0x22] s1)
           in if endsWith s2 [0x27, 0x27, 0x27] then stripSuffixWs [0x27, 0x27, 0x27] s2
              else stripSuffixWs [0x22, 0x22, 0x22] s2)
        else if languageId = ''html''
        then stripSuffixWs [0x2D, 0x2D, 0x3E] (stripPrefixWs [0x3C, 0x21, 0x2D, 0x2D] text)
        else text)"

text \<open>
  The body of the traversal loop for one node: a node that is a comment or a Python
  docstring is kept iff the ratio of its sanitized text is at least \<open>minJapaneseRatio\<close>.
\<close>

definition astCandidate :: "string \<Rightarrow> rat \<Rightarrow> node \<Rightarrow> commentRange list" where
  "astCandidate languageId minRatio n =
     (let isComment = isCommentNode (nodeType n) languageId;
          isDocstring = (languageId = ''python'' \<and> isPythonDocstring n)
      in if isComment \<or> isDocstring
         then (let orig = nodeText n; sanitized = sanitizeComment orig languageId in
               if calculateJapaneseRatio sanitized \<ge> minRatio
               then [\<lparr>start_c = startIndex n, end_c = endIndex n, text_c = sanitized,
                       original = orig\<rparr>]
               else [])
         else [])"

text \<open>
  The traversal with an explicit stack; the head of the list is the top of the stack, and
  the children are pushed so that the first child is on top.
\<close>

function traverse :: "string \<Rightarrow> rat \<Rightarrow> node list \<Rightarrow> commentRange list" where
  "traverse languageId minRatio [] = []"
| "traverse languageId minRatio (n # stack) =
     astCandidate languageId minRatio n @
     traverse languageId minRatio (children n @ stack)"
  by pat_completeness auto
termination
proof (relation "measure (\<lambda>(languageId, minRatio, stack). size_list size stack)")
  show "wf (measure (\<lambda>(languageId, minRatio, stack). size_list size stack))" by simp
next
  fix languageId :: string and minRatio :: rat and n :: node and stack :: "node list"
  show "((languageId, minRatio, children n @ stack), languageId, minRatio, n # stack)
      \<in> measure (\<lambda>(languageId, minRatio, stack). size_list size stack)"
    by (cases n) (simp add: size_list_append)
qed

text \<open>
  The grammar per language id (\<open>languageGrammarMap\<close>), and the environment of the
  extractor: whether the parser instance exists, and for each grammar name the parser of
  the loaded grammar, or \<open>None\<close> when loading fails.
\<close>

definition languageGrammarMap :: "string \<Rightarrow> string option" where
  "languageGrammarMap languageId =
     (if languageId \<in> set [''javascript'', ''javascriptreact'']
      then Some ''tree-sitter-javascript''
      else if languageId = ''typescript'' then Some ''tree-sitter-typescript''
      else if languageId = ''typescriptreact'' then Some ''tree-sitter-tsx''
      else if languageId = ''python'' then Some ''tree-sitter-python''
      else if languageId \<in> set [''c'', ''cpp''] then Some ''tree-sitter-c''
      else if languageId = ''html'' then Some ''tree-sitter-html''
      else None)"

record treeSitter =
  parserInstance :: bool
  grammars :: "string \<Rightarrow> (jsstring \<Rightarrow> node) option"

definition loadLanguage :: "treeSitter \<Rightarrow> string \<Rightarrow> (jsstring \<Rightarrow> node) option" where
  "loadLanguage ts languageId =
     (case languageGrammarMap languageId of
        None \<Rightarrow> None
      | Some grammarName \<Rightarrow> grammars ts grammarName)"

datatype extract_error = TreeSitterNotInitialized

text \<open>The third argument, \<open>minJapaneseRatio\<close>, is optional; its default is 0.1.\<close>

definition extractCommentsWithTreeSitter ::
  "treeSitter \<Rightarrow> jsstring \<Rightarrow> string \<Rightarrow> rat option \<Rightarrow> extract_error + commentRange list" where
  "extractCommentsWithTreeSitter ts text languageId minRatioArg =
     (if \<not> parserInstance ts then Inl TreeSitterNotInitialized
      else
        (case loadLanguage ts languageId of
           None \<Rightarrow> Inr []
         | Some parse \<Rightarrow>
             Inr (traverse languageId (orElse minRatioArg (1 / 10)) [parse text])))"

section \<open>Wikipedia lookup (wikipedia.ts)\<close>












section \<open>Descriptions of the rules and example data\<close>

text \<open>
  The rules are compared with direct descriptions of what they report: the diagnostics of
  a sentence are the images, in order, of the items of the token list (single tokens, or
  pairs of a token and its immediate successor) that satisfy the trigger condition.
\<close>

definition adjacentPairs :: "'a list \<Rightarrow> ('a \<times> 'a) list" where
  "adjacentPairs xs = zip xs (tl xs)"

definition commaLimitOf :: "jsstring \<Rightarrow> int \<Rightarrow> sentence \<Rightarrow> diagnostic list" where
  "commaLimitOf text limit s =
     (if int (countCommas (text_s s)) > limit
      then [mkDiagnostic text (start_s s) (end_s s)
              (CommaLimitMessage limit (countCommas (text_s s))) ''comma-limit'']
      else [])"

definition adversativeGaOf :: "jsstring \<Rightarrow> int \<Rightarrow> sentence \<Rightarrow> diagnostic list" where
  "adversativeGaOf text maxCount s =
     (if int (length (filter isAdversativeGa (tokens s))) > maxCount
      then [mkDiagnostic text (start_s s) (end_s s)
              (AdversativeGaMessage maxCount (length (filter isAdversativeGa (tokens s))))
              ''adversative-ga'']
      else [])"

text \<open>
  duplicate-particle: the pairs of immediately successive tokens of the particle-only
  subsequence with the same surface form and the same key.
\<close>

definition duplicateParticleOf :: "jsstring \<Rightarrow> token list \<Rightarrow> diagnostic list" where
  "duplicateParticleOf text ts =
     map (\<lambda>(p, q). mkDiagnostic text (offset p) (offset q + length (surface q))
                      (DuplicateParticleMessage (surface q)) ''duplicate-particle'')
       (filter (\<lambda>(p, q). surface q = surface p \<and> getParticleKey q = getParticleKey p)
          (adjacentPairs (filter isParticle ts)))"

text \<open>
  adjacent-particles: the pairs of immediately successive tokens that are both particles
  with the same key, the second starting where the first ends.
\<close>

definition adjacentParticlesOf :: "jsstring \<Rightarrow> token list \<Rightarrow> diagnostic list" where
  "adjacentParticlesOf text ts =
     map (\<lambda>(p, q). mkDiagnostic text (offset p) (offset q + length (surface q))
                      AdjacentParticlesMessage ''adjacent-particles'')
       (filter (\<lambda>(p, q). isParticle p \<and> isParticle q \<and> getParticleKey q = getParticleKey p \<and>
                          offset q = offset p + length (surface p))
          (adjacentPairs ts))"

text \<open>
  conjunction-repeat: the pairs of immediately successive tokens of the conjunction-only
  subsequence with the same surface form and no newline in the text between them.
\<close>

definition conjunctionRepeatOf :: "jsstring \<Rightarrow> token list \<Rightarrow> diagnostic list" where
  "conjunctionRepeatOf text ts =
     map (\<lambda>(p, q). mkDiagnostic text (offset p) (offset q + length (surface q))
                      (ConjunctionRepeatMessage (surface q)) ''conjunction-repeat'')
       (filter (\<lambda>(p, q). surface q = surface p \<and>
                          0x0A \<notin> set (slice text (offset p + length (surface p)) (offset q)))
          (adjacentPairs (filter isConjunction ts)))"

text \<open>
  ra-dropping, single tokens: the verbs whose dictionary form is \<open>koreru\<close> or \<open>mireru\<close>;
  the span is the token.
\<close>

definition raSingleOf :: "jsstring \<Rightarrow> token list \<Rightarrow> diagnostic list" where
  "raSingleOf text ts =
     map (\<lambda>t. mkDiagnostic text (offset t) (offset t + length (surface t))
                 RaDroppingMessage ''ra-dropping'')
       (filter (\<lambda>t. pos t = [0x52D5, 0x8A5E] \<and>
                     (baseForm t = [0x6765, 0x308C, 0x308B] \<or>
                      baseForm t = [0x898B, 0x308C, 0x308B]))
          ts)"

text \<open>
  ra-dropping, bigrams: a self-standing one-step-conjugation verb in the incomplete form,
  immediately followed by the verb suffix with dictionary form \<open>reru\<close>; the span runs from
  the start of the first token to the end of the second.
\<close>

definition raBigramOf :: "jsstring \<Rightarrow> token list \<Rightarrow> diagnostic list" where
  "raBigramOf text ts =
     map (\<lambda>(p, q). mkDiagnostic text (offset p) (offset q + length (surface q))
                      RaDroppingMessage ''ra-dropping'')
       (filter (\<lambda>(p, q).
                  (pos p = [0x52D5, 0x8A5E] \<and> posDetail1 p = [0x81EA, 0x7ACB] \<and>
                   conjugationType p = [0x4E00, 0x6BB5] \<and>
                   conjugationForm p = [0x672A, 0x7136, 0x5F62]) \<and>
                  (pos q = [0x52D5, 0x8A5E] \<and> posDetail1 q = [0x63A5, 0x5C3E] \<and>
                   baseForm q = [0x308C, 0x308B]))
          (adjacentPairs ts))"

text \<open>\<open>defaultConfig\<close> of \<open>shared/types.ts\<close>.\<close>

definition defaultConfig :: config where
  "defaultConfig =
     \<lparr>enable = True,
      targetLanguages = [''plaintext'', ''markdown'', ''japanese'', ''latex'', ''html''],
      minJapaneseRatio = 1 / 10,
      rules = \<lparr>commaLimit = True, commaLimitMax = 3, adversativeGa = True,
               adversativeGaMax = 1, duplicateParticle = True, adjacentParticles = True,
               conjunctionRepeat = True, raDropping = True\<rparr>\<rparr>"

text \<open>
  Example tokens: \<open>exampleToken s p d ct cf b off\<close> has surface \<open>s\<close>, part of speech \<open>p\<close>,
  detail \<open>d\<close>, conjugation type \<open>ct\<close> and form \<open>cf\<close>, dictionary form \<open>b\<close> and offset \<open>off\<close>;
  the other features are absent.
\<close>

definition exampleToken ::
  "jsstring \<Rightarrow> jsstring \<Rightarrow> jsstring \<Rightarrow> jsstring \<Rightarrow> jsstring \<Rightarrow> jsstring \<Rightarrow> nat \<Rightarrow> token" where
  "exampleToken s p d ct cf b off =
     \<lparr>surface = s, pos = p, posDetail1 = d, posDetail2 = [0x2A], posDetail3 = [0x2A],
      conjugationType = ct, conjugationForm = cf, baseForm = b, reading = [],
      pronunciation = [], offset = off, length_t = byteLength s\<rparr>"

text \<open>
  The sentence of the comma-limit scenario: 19 code units, four of them the comma 3001,
  ending in the full stop 3002.
\<close>

definition commaExample :: jsstring where
  "commaExample =
     [0x3053, 0x308C, 0x306F, 0x3001, 0x3068, 0x3066, 0x3082, 0x3001, 0x3059, 0x3054,
      0x304F, 0x3001, 0x975E, 0x5E38, 0x306B, 0x3001, 0x826F, 0x3044, 0x3002]"

text \<open>
  The particle \<open>wo\<close> (3092, case particle 683C 52A9 8A5E) at a given offset; the verb
  \<open>mi\<close> (898B) in its incomplete form, the suffix \<open>reru\<close> and the verb \<open>koreru\<close>.
\<close>

definition particleWo :: "nat \<Rightarrow> token" where
  "particleWo off =
     exampleToken [0x3092] [0x52A9, 0x8A5E] [0x683C, 0x52A9, 0x8A5E] [0x2A] [0x2A] [0x3092] off"

definition verbMi :: "nat \<Rightarrow> token" where
  "verbMi off =
     exampleToken [0x898B] [0x52D5, 0x8A5E] [0x81EA, 0x7ACB] [0x4E00, 0x6BB5]
       [0x672A, 0x7136, 0x5F62] [0x898B, 0x308B] off"

definition suffixReru :: "nat \<Rightarrow> token" where
  "suffixReru off =
     exampleToken [0x308C, 0x308B] [0x52D5, 0x8A5E] [0x63A5, 0x5C3E] [0x4E00, 0x6BB5]
       [0x57FA, 0x672C, 0x5F62] [0x308C, 0x308B] off"

definition verbKoreru :: "nat \<Rightarrow> token" where
  "verbKoreru off =
     exampleToken [0x6765, 0x308C, 0x308B] [0x52D5, 0x8A5E] [0x81EA, 0x7ACB] [0x4E00, 0x6BB5]
       [0x57FA, 0x672C, 0x5F62] [0x6765, 0x308C, 0x308B] off"

text \<open>A noun (540D 8A5E) whose dictionary form is \<open>koreru\<close>.\<close>

definition nounKoreru :: "nat \<Rightarrow> token" where
  "nounKoreru off =
     exampleToken [0x6765, 0x308C, 0x308B] [0x540D, 0x8A5E] [0x4E00, 0x822C] [0x2A] [0x2A]
       [0x6765, 0x308C, 0x308B] off"

text \<open>
  Descriptions for the sentence segmenter: the end of a token; sentences that follow each
  other without gap from a given start; tokens none of which starts before the end of its
  predecessor; tokens each of which starts exactly at the end of its predecessor.
\<close>

definition tokenEnd :: "token \<Rightarrow> nat" where
  "tokenEnd t = offset t + length (surface t)"

fun contiguousFrom :: "nat \<Rightarrow> sentence list \<Rightarrow> bool" where
  "contiguousFrom c [] = True"
| "contiguousFrom c (s # ss) = (start_s s = c \<and> contiguousFrom (end_s s) ss)"

fun orderedFrom :: "nat \<Rightarrow> token list \<Rightarrow> bool" where
  "orderedFrom c [] = True"
| "orderedFrom c (t # ts) = (c \<le> offset t \<and> orderedFrom (tokenEnd t) ts)"

fun gaplessFrom :: "nat \<Rightarrow> token list \<Rightarrow> bool" where
  "gaplessFrom c [] = True"
| "gaplessFrom c (t # ts) = (offset t = c \<and> gaplessFrom (tokenEnd t) ts)"

text \<open>
  Example tokens without conjugation: the noun \<open>a\<close> (3042) and the full stop (3002, a
  symbol) at a given offset.
\<close>

definition nounA :: "nat \<Rightarrow> token" where
  "nounA off =
     exampleToken [0x3042] [0x540D, 0x8A5E] [0x4E00, 0x822C] [0x2A] [0x2A] [0x3042] off"

definition fullStop :: "nat \<Rightarrow> token" where
  "fullStop off =
     exampleToken [0x3002] [0x8A18, 0x53F7] [0x53E5, 0x70B9] [0x2A] [0x2A] [0x3002] off"



text \<open>
  Example backends: a record with the given surface form and no features; a backend that
  answers every text with the records of a fixed list of surface forms.
\<close>

definition rawToken :: "jsstring \<Rightarrow> kuromoji_token" where
  "rawToken w =
     \<lparr>surface_form = w, pos_raw = None, pos_detail_1 = None, pos_detail_2 = None,
      pos_detail_3 = None, conjugated_type = None, conjugated_form = None,
      basic_form = None, reading_raw = None, pronunciation_raw = None\<rparr>"

definition fixedBackend :: "jsstring list \<Rightarrow> backend" where
  "fixedBackend ws = (\<lambda>text. Some (map rawToken ws))"

text \<open>
  Descriptions for the extraction strategies: the nodes in the order the traversal visits
  them (depth first, a node before its children, the children from first to last); the
  candidates of the AST strategy and the range recorded for a node; the range recorded for
  a match of the regex strategy.
\<close>

function preorder :: "node list \<Rightarrow> node list" where
  "preorder [] = []"
| "preorder (n # stack) = n # preorder (children n @ stack)"
  by pat_completeness auto
termination
proof (relation "measure (size_list size)")
  show "wf (measure (size_list size :: node list \<Rightarrow> nat))" by simp
next
  fix n :: node and stack :: "node list"
  show "(children n @ stack, n # stack) \<in> measure (size_list size)"
    by (cases n) (simp add: size_list_append)
qed

definition isCandidateNode :: "string \<Rightarrow> node \<Rightarrow> bool" where
  "isCandidateNode languageId n \<longleftrightarrow>
     isCommentNode (nodeType n) languageId \<or> (languageId = ''python'' \<and> isPythonDocstring n)"

definition astRange :: "string \<Rightarrow> node \<Rightarrow> commentRange" where
  "astRange languageId n =
     \<lparr>start_c = startIndex n, end_c = endIndex n,
      text_c = sanitizeComment (nodeText n) languageId, original = nodeText n\<rparr>"

definition regexRange :: "nat \<times> jsstring \<Rightarrow> commentRange" where
  "regexRange m =
     \<lparr>start_c = fst m, end_c = fst m + length (snd m), text_c = removeMarkers (snd m),
      original = snd m\<rparr>"

text \<open>
  Example data: a parser environment in which every grammar loads and parses a text into
  a root with one comment node spanning the text; a line comment of marker, space and ten
  code units of which one is Japanese (ratio exactly 0.1); the same with five code units
  (ratio 0.2); a line comment with a trailing space.
\<close>

definition wholeTextComment :: treeSitter where
  "wholeTextComment =
     \<lparr>parserInstance = True,
      grammars = (\<lambda>g. Some (\<lambda>text.
        Node ''program'' text 0 (length text) [Node ''comment'' text 0 (length text) []]))\<rparr>"

definition tenthComment :: jsstring where
  "tenthComment =
     [0x2F, 0x2F, 0x20, 0x3042, 0x61, 0x61, 0x61, 0x61, 0x61, 0x61, 0x61, 0x61, 0x61]"

definition fifthComment :: jsstring where
  "fifthComment = [0x2F, 0x2F, 0x20, 0x3042, 0x61, 0x61, 0x61, 0x61]"

definition trailingSpaceComment :: jsstring where
  "trailingSpaceComment = [0x2F, 0x2F, 0x20, 0x3042, 0x20]"

text \<open>
  duplicate-particle with the fields written out: the particle-only subsequence holds the
  tokens whose part of speech is \<open>joshi\<close>; a pair of immediate successors in it is
  reported when the two tokens have the same surface form, the same part of speech and
  the same POS-detail-1.
\<close>

definition duplicateParticleFieldsOf :: "jsstring \<Rightarrow> token list \<Rightarrow> diagnostic list" where
  "duplicateParticleFieldsOf text ts =
     map (\<lambda>(p, q). mkDiagnostic text (offset p) (offset q + length (surface q))
                      (DuplicateParticleMessage (surface q)) ''duplicate-particle'')
       (filter (\<lambda>(p, q). surface q = surface p \<and> pos q = pos p \<and>
                          posDetail1 q = posDetail1 p)
          (adjacentPairs (filter (\<lambda>t. pos t = [0x52A9, 0x8A5E]) ts)))"

text \<open>
  The particle \<open>ga\<close> (304C) as a case particle (683C 52A9 8A5E) and as a connective
  particle (63A5 7D9A 52A9 8A5E): the same surface form with different POS-detail-1.
\<close>

definition particleGaCase :: "nat \<Rightarrow> token" where
  "particleGaCase off =
     exampleToken [0x304C] [0x52A9, 0x8A5E] [0x683C, 0x52A9, 0x8A5E] [0x2A] [0x2A] [0x304C] off"

definition particleGaConnective :: "nat \<Rightarrow> token" where
  "particleGaConnective off =
     exampleToken [0x304C] [0x52A9, 0x8A5E] [0x63A5, 0x7D9A, 0x52A9, 0x8A5E] [0x2A] [0x2A]
       [0x304C] off"

section \<open>Properties\<close>

text \<open>
  C10: for every string, \<open>calculateJapaneseRatio\<close> returns a rational number between
  0 and 1 inclusive, and exactly 0 on the empty string.
\<close>

theorem calculateJapaneseRatio_bounds:
  "0 \<le> calculateJapaneseRatio text \<and> calculateJapaneseRatio text \<le> 1 \<and>
   calculateJapaneseRatio [] = 0"
proof -
  have "length (filter isJapaneseChar text) \<le> length text"
    by (rule length_filter_le)
  then have "(of_nat (length (filter isJapaneseChar text)) :: rat) \<le> of_nat (length text)"
    by (simp only: of_nat_le_iff)
  then show ?thesis
    by (simp add: calculateJapaneseRatio_def divide_le_eq_1)
qed

subsection \<open>Grammar rules\<close>

lemma adjacentPairs_simps [simp]:
  "adjacentPairs [] = []" "adjacentPairs [x] = []"
  "adjacentPairs (x # y # ys) = (x, y) # adjacentPairs (y # ys)"
  by (simp_all add: adjacentPairs_def)

lemma dup_tokens_Some:
  "1 \<le> streak \<Longrightarrow>
   checkDuplicateParticle_tokens text (surface lt) (getParticleKey lt) (Some lt) streak ts =
     map (\<lambda>(p, q). mkDiagnostic text (offset p) (offset q + length (surface q))
                      (DuplicateParticleMessage (surface q)) ''duplicate-particle'')
       (filter (\<lambda>(p, q). surface q = surface p \<and> getParticleKey q = getParticleKey p)
          (adjacentPairs (lt # filter isParticle ts)))"
proof (induction ts arbitrary: lt streak)
  case Nil
  show ?case by simp
next
  case (Cons t ts)
  show ?case
  proof (cases "isParticle t")
    case False
    then show ?thesis using Cons.IH [OF Cons.prems] by simp
  next
    case True
    note part = this
    show ?thesis
    proof (cases "surface t = surface lt \<and> getParticleKey t = getParticleKey lt")
      case True
      have "1 \<le> streak + 1" by simp
      from Cons.IH [OF this, of t] True part Cons.prems show ?thesis
        by (simp add: Let_def)
    next
      case False
      have "(1::nat) \<le> 1" by simp
      from Cons.IH [OF this, of t] False part show ?thesis
        by (auto simp add: Let_def)
    qed
  qed
qed

lemma dup_tokens_None:
  "checkDuplicateParticle_tokens text ls lk None streak ts = duplicateParticleOf text ts"
proof (induction ts)
  case Nil
  show ?case by (simp add: duplicateParticleOf_def)
next
  case (Cons t ts)
  show ?case
  proof (cases "isParticle t")
    case False
    then show ?thesis using Cons.IH by (simp add: duplicateParticleOf_def)
  next
    case True
    then show ?thesis
      by (simp add: Let_def dup_tokens_Some duplicateParticleOf_def)
  qed
qed

lemma dup_loop: "checkDuplicateParticle_loop text ss = concat (map (\<lambda>s. duplicateParticleOf text (tokens s)) ss)"
  by (induction ss) (simp_all add: dup_tokens_None)


lemma adj_tokens_prev:
  "1 \<le> streak \<Longrightarrow>
   checkAdjacentParticles_tokens text (isParticle p)
     (if isParticle p then getParticleKey p else k) (if isParticle p then Some p else r)
     streak ts =
   adjacentParticlesOf text (p # ts)"
proof (induction ts arbitrary: p k r streak)
  case Nil
  show ?case by (simp add: adjacentParticlesOf_def)
next
  case (Cons t ts)
  have rest: "checkAdjacentParticles_tokens text (isParticle t)
       (if isParticle t then getParticleKey t else k') (if isParticle t then Some t else r')
       streak' ts = adjacentParticlesOf text (t # ts)" if "1 \<le> streak'" for k' r' streak'
    using that by (rule Cons.IH)
  have one: "(1::nat) \<le> 1" and suc: "1 \<le> streak + 1" by simp_all
  show ?case
  proof (cases "isParticle p")
    case True
    note pp = this
    show ?thesis
    proof (cases "isParticle t \<and> getParticleKey t = getParticleKey p \<and>
        offset t = offset p + length (surface p)")
      case True
      from rest [OF suc, of "getParticleKey p" "Some p"] True pp Cons.prems show ?thesis
        by (simp add: Let_def adjacentParticlesOf_def)
    next
      case False
      from rest [OF one, of "getParticleKey p" "Some p"] False pp show ?thesis
        by (auto simp add: Let_def adjacentParticlesOf_def)
    qed
  next
    case False
    then show ?thesis
      using rest [OF one, of k r]
      by (cases r; cases "isParticle t") (simp_all add: Let_def adjacentParticlesOf_def)
  qed
qed

lemma adj_tokens_init:
  "checkAdjacentParticles_tokens text False k None streak ts = adjacentParticlesOf text ts"
proof (cases ts)
  case Nil
  then show ?thesis by (simp add: adjacentParticlesOf_def)
next
  case (Cons t ts')
  have one: "(1::nat) \<le> 1" by simp
  show ?thesis
    using Cons adj_tokens_prev [OF one, of "text" t k None ts']
    by (simp add: Let_def)
qed

lemma adj_loop:
  "checkAdjacentParticles_loop text ss =
     concat (map (\<lambda>s. adjacentParticlesOf text (tokens s)) ss)"
  by (induction ss) (simp_all add: adj_tokens_init)

lemma conj_tokens_Some:
  "1 \<le> streak \<Longrightarrow>
   checkConjunctionRepeat_tokens text (surface lt) (Some lt) streak ts =
     map (\<lambda>(p, q). mkDiagnostic text (offset p) (offset q + length (surface q))
                      (ConjunctionRepeatMessage (surface q)) ''conjunction-repeat'')
       (filter (\<lambda>(p, q). surface q = surface p \<and>
                          0x0A \<notin> set (slice text (offset p + length (surface p)) (offset q)))
          (adjacentPairs (lt # filter isConjunction ts)))"
proof (induction ts arbitrary: lt streak)
  case Nil
  show ?case by simp
next
  case (Cons t ts)
  show ?case
  proof (cases "isConjunction t")
    case False
    then show ?thesis using Cons.IH [OF Cons.prems] by simp
  next
    case True
    note conj = this
    show ?thesis
    proof (cases "surface t = surface lt \<and>
        0x0A \<notin> set (slice text (offset lt + length (surface lt)) (offset t))")
      case True
      have "1 \<le> streak + 1" by simp
      from Cons.IH [OF this, of t] True conj Cons.prems show ?thesis
        by (simp add: Let_def)
    next
      case False
      have "(1::nat) \<le> 1" by simp
      from Cons.IH [OF this, of t] False conj show ?thesis
        by (auto simp add: Let_def)
    qed
  qed
qed

lemma conj_tokens_None:
  "checkConjunctionRepeat_tokens text ls None streak ts = conjunctionRepeatOf text ts"
proof (induction ts)
  case Nil
  show ?case by (simp add: conjunctionRepeatOf_def)
next
  case (Cons t ts)
  show ?case
  proof (cases "isConjunction t")
    case False
    then show ?thesis using Cons.IH by (simp add: conjunctionRepeatOf_def)
  next
    case True
    then show ?thesis
      by (simp add: Let_def conj_tokens_Some conjunctionRepeatOf_def)
  qed
qed

lemma flattenTokens_concat: "flattenTokens ss = concat (map tokens ss)"
  by (induction ss) simp_all

lemma ra_special: "checkRaDropping_special text ts = raSingleOf text ts"
  by (induction ts) (simp_all add: raSingleOf_def isSpecialRaCase_def)

lemma ra_pairs_Some:
  "checkRaDropping_pairs text (Some p) ts = raBigramOf text (p # ts)"
  by (induction ts arbitrary: p) (simp_all add: raBigramOf_def isTargetVerb_def isRaWord_def)

lemma ra_pairs_None: "checkRaDropping_pairs text None ts = raBigramOf text ts"
  by (cases ts) (simp_all add: ra_pairs_Some, simp add: raBigramOf_def)

lemma ra_loop:
  "checkRaDropping_loop text ss =
     concat (map (\<lambda>s. raSingleOf text (tokens s) @ raBigramOf text (tokens s)) ss)"
  by (induction ss) (simp_all add: ra_special ra_pairs_None)

lemma countAdversativeGa_eq:
  "countAdversativeGa c ts = c + length (filter isAdversativeGa ts)"
  by (induction ts arbitrary: c) simp_all

lemma comma_loop:
  "checkCommaLimit_loop text limit ss = concat (map (commaLimitOf text limit) ss)"
  by (induction ss) (simp_all add: commaLimitOf_def Let_def)

lemma ga_loop:
  "checkAdversativeGa_loop text m ss = concat (map (adversativeGaOf text m) ss)"
  by (induction ss) (simp_all add: adversativeGaOf_def Let_def countAdversativeGa_eq)


lemma concat_map_if:
  "concat (map (\<lambda>x. if P x then [g x] else []) xs) = map g (filter P xs)"
  by (induction xs) simp_all

text \<open>
  C5: with the rule enabled, the comma-limit rule reports exactly one diagnostic, from
  the start to the end of the sentence, for every sentence whose text holds strictly more
  commas than \<open>commaLimitMax\<close>, and none for a sentence at or below the limit; the example
  sentence with four commas and the default limit 3 yields exactly one \<open>comma-limit\<close>
  diagnostic from position (0, 0) to position (0, 19), the whole sentence.
\<close>

theorem checkCommaLimit_exact:
  assumes "commaLimit (rules cfg)"
  shows "checkCommaLimit txt sentences cfg =
           map (\<lambda>s. mkDiagnostic txt (start_s s) (end_s s)
                       (CommaLimitMessage (commaLimitMax (rules cfg)) (countCommas (text_s s)))
                       ''comma-limit'')
             (filter (\<lambda>s. int (countCommas (text_s s)) > commaLimitMax (rules cfg)) sentences)
         \<and> checkCommaLimit commaExample
             [\<lparr>text_s = commaExample, start_s = 0, end_s = 19, tokens = ts\<rparr>] defaultConfig =
           [\<lparr>start_d = \<lparr>line = 0, character = 0\<rparr>, end_d = \<lparr>line = 0, character = 19\<rparr>,
             message = CommaLimitMessage 3 4, severity = 2, code = ''comma-limit'',
             source = ''wakame''\<rparr>]"
proof
  have "checkCommaLimit txt sentences cfg =
          concat (map (commaLimitOf txt (commaLimitMax (rules cfg))) sentences)"
    using assms by (simp add: checkCommaLimit_def comma_loop)
  also have "\<dots> = map (\<lambda>s. mkDiagnostic txt (start_s s) (end_s s)
                       (CommaLimitMessage (commaLimitMax (rules cfg)) (countCommas (text_s s)))
                       ''comma-limit'')
             (filter (\<lambda>s. int (countCommas (text_s s)) > commaLimitMax (rules cfg)) sentences)"
    unfolding commaLimitOf_def by (rule concat_map_if)
  finally show "checkCommaLimit txt sentences cfg =
           map (\<lambda>s. mkDiagnostic txt (start_s s) (end_s s)
                       (CommaLimitMessage (commaLimitMax (rules cfg)) (countCommas (text_s s)))
                       ''comma-limit'')
             (filter (\<lambda>s. int (countCommas (text_s s)) > commaLimitMax (rules cfg)) sentences)" .
next
  show "checkCommaLimit commaExample
             [\<lparr>text_s = commaExample, start_s = 0, end_s = 19, tokens = ts\<rparr>] defaultConfig =
           [\<lparr>start_d = \<lparr>line = 0, character = 0\<rparr>, end_d = \<lparr>line = 0, character = 19\<rparr>,
             message = CommaLimitMessage 3 4, severity = 2, code = ''comma-limit'',
             source = ''wakame''\<rparr>]"
    by (simp add: checkCommaLimit_def defaultConfig_def commaExample_def countCommas_def
        mkDiagnostic_def offsetToPosition_def isHighSurrogate_def isLowSurrogate_def)
qed

text \<open>
  The same at a text of two sentences, with one comma and with four.
\<close>

theorem checkCommaLimit_exact_witness:
  "commaLimit (rules defaultConfig) \<and>
   checkCommaLimit [0x3042, 0x3001, 0x0A, 0x3001, 0x3001, 0x3001, 0x3001, 0x3002]
     [\<lparr>text_s = [0x3042, 0x3001, 0x0A], start_s = 0, end_s = 3, tokens = []\<rparr>,
      \<lparr>text_s = [0x3001, 0x3001, 0x3001, 0x3001, 0x3002], start_s = 3, end_s = 8, tokens = []\<rparr>]
     defaultConfig =
   [\<lparr>start_d = \<lparr>line = 1, character = 0\<rparr>, end_d = \<lparr>line = 1, character = 5\<rparr>,
     message = CommaLimitMessage 3 4, severity = 2, code = ''comma-limit'',
     source = ''wakame''\<rparr>]"
proof -
  have h: "commaLimit (rules defaultConfig)" by (simp add: defaultConfig_def)
  show ?thesis
    using h checkCommaLimit_exact [OF h,
        of "[0x3042, 0x3001, 0x0A, 0x3001, 0x3001, 0x3001, 0x3001, 0x3002]"
           "[\<lparr>text_s = [0x3042, 0x3001, 0x0A], start_s = 0, end_s = 3, tokens = []\<rparr>,
             \<lparr>text_s = [0x3001, 0x3001, 0x3001, 0x3001, 0x3002], start_s = 3, end_s = 8,
               tokens = []\<rparr>]" "[]"]
    by (simp add: defaultConfig_def countCommas_def
        mkDiagnostic_def offsetToPosition_def isHighSurrogate_def isLowSurrogate_def)
qed


lemmas rule_eval =
  defaultConfig_def exampleToken_def particleWo_def verbMi_def suffixReru_def verbKoreru_def
  nounKoreru_def isParticle_def isAdversativeGa_def isConjunction_def getParticleKey_def
  isTargetVerb_def isRaWord_def isSpecialRaCase_def countCommas_def mkDiagnostic_def
  offsetToPosition_def isHighSurrogate_def isLowSurrogate_def slice_def Let_def

lemma particle_key_fields:
  "isParticle p \<Longrightarrow> isParticle q \<Longrightarrow>
   getParticleKey q = getParticleKey p \<longleftrightarrow> pos q = pos p \<and> posDetail1 q = posDetail1 p"
  by (simp add: isParticle_def getParticleKey_def)

lemma adjacentPairs_members:
  "(p, q) \<in> set (adjacentPairs xs) \<Longrightarrow> p \<in> set xs \<and> q \<in> set xs"
  unfolding adjacentPairs_def
  by (cases xs) (auto dest: set_zip_leftD set_zip_rightD)

lemma duplicateParticle_fields:
  "duplicateParticleOf text ts = duplicateParticleFieldsOf text ts"
proof -
  have part: "filter (\<lambda>t. pos t = [0x52A9, 0x8A5E]) ts = filter isParticle ts"
    by (rule filter_cong) (simp_all add: isParticle_def)
  have "filter (\<lambda>(p, q). surface q = surface p \<and> getParticleKey q = getParticleKey p)
          (adjacentPairs (filter isParticle ts)) =
        filter (\<lambda>(p, q). surface q = surface p \<and> pos q = pos p \<and>
                          posDetail1 q = posDetail1 p)
          (adjacentPairs (filter isParticle ts))"
  proof (rule filter_cong [OF refl])
    fix x assume x: "x \<in> set (adjacentPairs (filter isParticle ts))"
    obtain p q where pq: "x = (p, q)" by (cases x)
    with x have "p \<in> set (filter isParticle ts)" and "q \<in> set (filter isParticle ts)"
      using adjacentPairs_members [of p q "filter isParticle ts"] by simp_all
    then have "isParticle p" and "isParticle q" by simp_all
    from particle_key_fields [OF this] pq
    show "(case x of (p, q) \<Rightarrow> surface q = surface p \<and> getParticleKey q = getParticleKey p) =
          (case x of (p, q) \<Rightarrow> surface q = surface p \<and> pos q = pos p \<and>
                          posDetail1 q = posDetail1 p)"
      by simp
  qed
  then show ?thesis
    by (simp only: duplicateParticleOf_def duplicateParticleFieldsOf_def part)
qed

text \<open>
  C4: with the rule enabled, the duplicate-particle rule reports, per sentence and in
  order, one diagnostic for each pair of immediately successive tokens of the particle-only
  subsequence that have the same surface form, the same part of speech and the same
  POS-detail-1, and nothing else; two consecutive particles \<open>wo\<close> give exactly one
  diagnostic, three give exactly two; two particles with the same surface form \<open>ga\<close> but
  different POS-detail-1 give none, and neither do two particles with different surface
  forms.
\<close>

theorem checkDuplicateParticle_exact:
  assumes "duplicateParticle (rules cfg)"
  shows "checkDuplicateParticle txt sentences cfg =
           concat (map (\<lambda>s. duplicateParticleFieldsOf txt (tokens s)) sentences)
         \<and> length (checkDuplicateParticle txt
              [\<lparr>text_s = st, start_s = a, end_s = b, tokens = [particleWo i, particleWo j]\<rparr>]
              cfg) = 1
         \<and> length (checkDuplicateParticle txt
              [\<lparr>text_s = st, start_s = a, end_s = b,
                tokens = [particleWo i, particleWo j, particleWo k]\<rparr>] cfg) = 2
         \<and> checkDuplicateParticle txt
              [\<lparr>text_s = st, start_s = a, end_s = b,
                tokens = [particleGaCase i, particleGaConnective j]\<rparr>] cfg = []
         \<and> checkDuplicateParticle txt
              [\<lparr>text_s = st, start_s = a, end_s = b,
                tokens = [particleWo i, particleGaCase j]\<rparr>] cfg = []"
proof (intro conjI)
  have "checkDuplicateParticle txt sentences cfg =
           concat (map (\<lambda>s. duplicateParticleOf txt (tokens s)) sentences)"
    using assms by (simp add: checkDuplicateParticle_def dup_loop)
  then show "checkDuplicateParticle txt sentences cfg =
           concat (map (\<lambda>s. duplicateParticleFieldsOf txt (tokens s)) sentences)"
    by (simp only: duplicateParticle_fields)
next
  show "length (checkDuplicateParticle txt
              [\<lparr>text_s = st, start_s = a, end_s = b, tokens = [particleWo i, particleWo j]\<rparr>]
              cfg) = 1"
    using assms
    by (simp add: checkDuplicateParticle_def particleWo_def exampleToken_def isParticle_def
        getParticleKey_def)
next
  show "length (checkDuplicateParticle txt
              [\<lparr>text_s = st, start_s = a, end_s = b,
                tokens = [particleWo i, particleWo j, particleWo k]\<rparr>] cfg) = 2"
    using assms
    by (simp add: checkDuplicateParticle_def particleWo_def exampleToken_def isParticle_def
        getParticleKey_def)
next
  show "checkDuplicateParticle txt
              [\<lparr>text_s = st, start_s = a, end_s = b,
                tokens = [particleGaCase i, particleGaConnective j]\<rparr>] cfg = []"
    using assms
    by (simp add: checkDuplicateParticle_def particleGaCase_def particleGaConnective_def
        exampleToken_def isParticle_def getParticleKey_def)
next
  show "checkDuplicateParticle txt
              [\<lparr>text_s = st, start_s = a, end_s = b,
                tokens = [particleWo i, particleGaCase j]\<rparr>] cfg = []"
    using assms
    by (simp add: checkDuplicateParticle_def particleWo_def particleGaCase_def
        exampleToken_def isParticle_def getParticleKey_def)
qed

text \<open>
  A sentence of the case particle \<open>ga\<close>, the connective particle \<open>ga\<close>, a verb and the
  connective particle \<open>ga\<close> again: the first pair differs in POS-detail-1 and is not
  reported; the second pair is reported although the verb stands between its tokens.
\<close>

theorem checkDuplicateParticle_exact_witness:
  "duplicateParticle (rules defaultConfig) \<and>
   checkDuplicateParticle [0x304C, 0x304C, 0x898B, 0x304C]
     [\<lparr>text_s = [0x304C, 0x304C, 0x898B, 0x304C], start_s = 0, end_s = 4,
       tokens = [particleGaCase 0, particleGaConnective 1, verbMi 2,
                 particleGaConnective 3]\<rparr>] defaultConfig =
   [\<lparr>start_d = \<lparr>line = 0, character = 1\<rparr>, end_d = \<lparr>line = 0, character = 4\<rparr>,
     message = DuplicateParticleMessage [0x304C], severity = 2, code = ''duplicate-particle'',
     source = ''wakame''\<rparr>]"
proof -
  have h: "duplicateParticle (rules defaultConfig)" by (simp add: defaultConfig_def)
  show ?thesis
    using h checkDuplicateParticle_exact [OF h, of "[0x304C, 0x304C, 0x898B, 0x304C]"
        "[\<lparr>text_s = [0x304C, 0x304C, 0x898B, 0x304C], start_s = 0, end_s = 4,
           tokens = [particleGaCase 0, particleGaConnective 1, verbMi 2,
                     particleGaConnective 3]\<rparr>]"]
    by (simp add: duplicateParticleFieldsOf_def particleGaCase_def particleGaConnective_def
        rule_eval)
qed

text \<open>
  C6, amended: with the rule enabled, the ra-dropping rule reports for every sentence
  first (a) one diagnostic for every token that is a verb (POS \<open>doushi\<close>) and whose
  dictionary form is \<open>koreru\<close> or \<open>mireru\<close>, spanning that token alone, and then (b) one
  diagnostic for every pair of a self-standing one-step-conjugation verb in the incomplete
  form immediately followed by the verb suffix with dictionary form \<open>reru\<close>, spanning both
  tokens; and it reports nothing else. The verb \<open>mi\<close> followed by \<open>reru\<close> yields one
  diagnostic spanning both tokens, the single token \<open>koreru\<close> one diagnostic on itself.
\<close>

theorem checkRaDropping_exact:
  assumes "raDropping (rules cfg)"
  shows "checkRaDropping txt sentences cfg =
           concat (map (\<lambda>s. raSingleOf txt (tokens s) @ raBigramOf txt (tokens s)) sentences)
         \<and> checkRaDropping txt
             [\<lparr>text_s = st, start_s = a, end_s = b, tokens = [verbMi i, suffixReru j]\<rparr>] cfg =
           [mkDiagnostic txt i (j + 2) RaDroppingMessage ''ra-dropping'']
         \<and> checkRaDropping txt
             [\<lparr>text_s = st, start_s = a, end_s = b, tokens = [verbKoreru i]\<rparr>] cfg =
           [mkDiagnostic txt i (i + 3) RaDroppingMessage ''ra-dropping'']"
proof (intro conjI)
  show "checkRaDropping txt sentences cfg =
           concat (map (\<lambda>s. raSingleOf txt (tokens s) @ raBigramOf txt (tokens s)) sentences)"
    using assms by (simp add: checkRaDropping_def ra_loop)
next
  show "checkRaDropping txt
             [\<lparr>text_s = st, start_s = a, end_s = b, tokens = [verbMi i, suffixReru j]\<rparr>] cfg =
           [mkDiagnostic txt i (j + 2) RaDroppingMessage ''ra-dropping'']"
    using assms
    by (simp add: checkRaDropping_def verbMi_def suffixReru_def exampleToken_def
        isSpecialRaCase_def isTargetVerb_def isRaWord_def)
next
  show "checkRaDropping txt
             [\<lparr>text_s = st, start_s = a, end_s = b, tokens = [verbKoreru i]\<rparr>] cfg =
           [mkDiagnostic txt i (i + 3) RaDroppingMessage ''ra-dropping'']"
    using assms
    by (simp add: checkRaDropping_def verbKoreru_def exampleToken_def
        isSpecialRaCase_def isTargetVerb_def isRaWord_def numeral_3_eq_3)
qed

text \<open>
  The bigram scenario with positions: the diagnostic runs from (0, 0) to (0, 3).
\<close>

theorem checkRaDropping_exact_witness:
  "raDropping (rules defaultConfig) \<and>
   checkRaDropping [0x898B, 0x308C, 0x308B, 0x3002]
     [\<lparr>text_s = [0x898B, 0x308C, 0x308B, 0x3002], start_s = 0, end_s = 4,
       tokens = [verbMi 0, suffixReru 1]\<rparr>] defaultConfig =
   [\<lparr>start_d = \<lparr>line = 0, character = 0\<rparr>, end_d = \<lparr>line = 0, character = 3\<rparr>,
     message = RaDroppingMessage, severity = 2, code = ''ra-dropping'', source = ''wakame''\<rparr>]"
proof -
  have h: "raDropping (rules defaultConfig)" by (simp add: defaultConfig_def)
  show ?thesis
    using h checkRaDropping_exact [OF h, of "[0x898B, 0x308C, 0x308B, 0x3002]"
        "[\<lparr>text_s = [0x898B, 0x308C, 0x308B, 0x3002], start_s = 0, end_s = 4,
           tokens = [verbMi 0, suffixReru 1]\<rparr>]"]
    by (simp add: raSingleOf_def raBigramOf_def adjacentPairs_def rule_eval)
qed

text \<open>
  C6 as stated fails: a token whose dictionary form is \<open>koreru\<close> but whose part of
  speech is not \<open>doushi\<close> (here a noun) is not reported, since \<open>isSpecialRaCase\<close> checks
  the part of speech first.
\<close>

theorem checkRaDropping_nonverb_counterexample:
  "baseForm (nounKoreru 0) = [0x6765, 0x308C, 0x308B] \<and>
   raDropping (rules defaultConfig) \<and>
   checkRaDropping [0x6765, 0x308C, 0x308B]
     [\<lparr>text_s = [0x6765, 0x308C, 0x308B], start_s = 0, end_s = 3, tokens = [nounKoreru 0]\<rparr>]
     defaultConfig = []"
  by (simp add: checkRaDropping_def rule_eval)

text \<open>
  C7, amended: \<open>checkGrammar\<close> returns the concatenation of the outputs of the six rules
  in the order comma-limit, adversative-ga, duplicate-particle, adjacent-particles,
  conjunction-repeat, ra-dropping; a rule whose flag is false contributes nothing; the
  output of an enabled rule follows the order of the sentences and, within a sentence, the
  order of the tokens (conjunction-repeat: the order of the tokens of all sentences),
  except that ra-dropping reports, for each sentence, all single-token diagnostics before
  all bigram diagnostics.
\<close>

theorem checkGrammar_order:
  "checkGrammar txt ss cfg =
     checkCommaLimit txt ss cfg @ checkAdversativeGa txt ss cfg @
     checkDuplicateParticle txt ss cfg @ checkAdjacentParticles txt ss cfg @
     checkConjunctionRepeat txt ss cfg @ checkRaDropping txt ss cfg
   \<and> checkCommaLimit txt ss cfg =
       (if commaLimit (rules cfg)
        then concat (map (commaLimitOf txt (commaLimitMax (rules cfg))) ss) else [])
   \<and> checkAdversativeGa txt ss cfg =
       (if adversativeGa (rules cfg)
        then concat (map (adversativeGaOf txt (adversativeGaMax (rules cfg))) ss) else [])
   \<and> checkDuplicateParticle txt ss cfg =
       (if duplicateParticle (rules cfg)
        then concat (map (\<lambda>s. duplicateParticleOf txt (tokens s)) ss) else [])
   \<and> checkAdjacentParticles txt ss cfg =
       (if adjacentParticles (rules cfg)
        then concat (map (\<lambda>s. adjacentParticlesOf txt (tokens s)) ss) else [])
   \<and> checkConjunctionRepeat txt ss cfg =
       (if conjunctionRepeat (rules cfg)
        then conjunctionRepeatOf txt (concat (map tokens ss)) else [])
   \<and> checkRaDropping txt ss cfg =
       (if raDropping (rules cfg)
        then concat (map (\<lambda>s. raSingleOf txt (tokens s) @ raBigramOf txt (tokens s)) ss)
        else [])"
proof (intro conjI)
  show "checkGrammar txt ss cfg =
     checkCommaLimit txt ss cfg @ checkAdversativeGa txt ss cfg @
     checkDuplicateParticle txt ss cfg @ checkAdjacentParticles txt ss cfg @
     checkConjunctionRepeat txt ss cfg @ checkRaDropping txt ss cfg"
    by (simp add: checkGrammar_def)
next
  show "checkCommaLimit txt ss cfg =
       (if commaLimit (rules cfg)
        then concat (map (commaLimitOf txt (commaLimitMax (rules cfg))) ss) else [])"
    by (simp add: checkCommaLimit_def comma_loop)
next
  show "checkAdversativeGa txt ss cfg =
       (if adversativeGa (rules cfg)
        then concat (map (adversativeGaOf txt (adversativeGaMax (rules cfg))) ss) else [])"
    by (simp add: checkAdversativeGa_def ga_loop)
next
  show "checkDuplicateParticle txt ss cfg =
       (if duplicateParticle (rules cfg)
        then concat (map (\<lambda>s. duplicateParticleOf txt (tokens s)) ss) else [])"
    by (simp add: checkDuplicateParticle_def dup_loop)
next
  show "checkAdjacentParticles txt ss cfg =
       (if adjacentParticles (rules cfg)
        then concat (map (\<lambda>s. adjacentParticlesOf txt (tokens s)) ss) else [])"
    by (simp add: checkAdjacentParticles_def adj_loop)
next
  show "checkConjunctionRepeat txt ss cfg =
       (if conjunctionRepeat (rules cfg)
        then conjunctionRepeatOf txt (concat (map tokens ss)) else [])"
    by (simp add: checkConjunctionRepeat_def conj_tokens_None flattenTokens_concat)
next
  show "checkRaDropping txt ss cfg =
       (if raDropping (rules cfg)
        then concat (map (\<lambda>s. raSingleOf txt (tokens s) @ raBigramOf txt (tokens s)) ss)
        else [])"
    by (simp add: checkRaDropping_def ra_loop)
qed

text \<open>
  C7 as stated fails for the order within the ra-dropping rule: in a sentence of the
  bigram \<open>mi\<close>, \<open>reru\<close> (offsets 0 and 1) followed by the token \<open>koreru\<close> (offset 3), the
  diagnostic of the third token is reported before the diagnostic of the first two, so the
  start characters of the reported diagnostics are 3, 0 and not in token order.
\<close>

theorem checkGrammar_order_counterexample:
  "checkGrammar [0x898B, 0x308C, 0x308B, 0x6765, 0x308C, 0x308B]
     [\<lparr>text_s = [0x898B, 0x308C, 0x308B, 0x6765, 0x308C, 0x308B], start_s = 0, end_s = 6,
       tokens = [verbMi 0, suffixReru 1, verbKoreru 3]\<rparr>] defaultConfig =
   [\<lparr>start_d = \<lparr>line = 0, character = 3\<rparr>, end_d = \<lparr>line = 0, character = 6\<rparr>,
     message = RaDroppingMessage, severity = 2, code = ''ra-dropping'', source = ''wakame''\<rparr>,
    \<lparr>start_d = \<lparr>line = 0, character = 0\<rparr>, end_d = \<lparr>line = 0, character = 3\<rparr>,
     message = RaDroppingMessage, severity = 2, code = ''ra-dropping'', source = ''wakame''\<rparr>]
   \<and> \<not> sorted (map (\<lambda>d. character (start_d d))
         (checkGrammar [0x898B, 0x308C, 0x308B, 0x6765, 0x308C, 0x308B]
            [\<lparr>text_s = [0x898B, 0x308C, 0x308B, 0x6765, 0x308C, 0x308B], start_s = 0,
              end_s = 6, tokens = [verbMi 0, suffixReru 1, verbKoreru 3]\<rparr>] defaultConfig))"
  by (simp add: checkGrammar_def checkCommaLimit_def checkAdversativeGa_def
      checkDuplicateParticle_def checkAdjacentParticles_def checkConjunctionRepeat_def
      checkRaDropping_def rule_eval)

text \<open>
  Two sentences with the adjacent-particles rule switched off: the duplicate-particle
  diagnostic of the first sentence, then the ra-dropping diagnostic of the second.
\<close>

theorem checkGrammar_order_witness:
  "checkGrammar [0x3092, 0x3092, 0x3002, 0x898B, 0x308C, 0x308B]
     [\<lparr>text_s = [0x3092, 0x3092, 0x3002], start_s = 0, end_s = 3,
       tokens = [particleWo 0, particleWo 1]\<rparr>,
      \<lparr>text_s = [0x898B, 0x308C, 0x308B], start_s = 3, end_s = 6,
       tokens = [verbMi 3, suffixReru 4]\<rparr>]
     (defaultConfig\<lparr>rules := (rules defaultConfig)\<lparr>adjacentParticles := False\<rparr>\<rparr>) =
   [\<lparr>start_d = \<lparr>line = 0, character = 0\<rparr>, end_d = \<lparr>line = 0, character = 2\<rparr>,
     message = DuplicateParticleMessage [0x3092], severity = 2, code = ''duplicate-particle'',
     source = ''wakame''\<rparr>,
    \<lparr>start_d = \<lparr>line = 0, character = 3\<rparr>, end_d = \<lparr>line = 0, character = 6\<rparr>,
     message = RaDroppingMessage, severity = 2, code = ''ra-dropping'', source = ''wakame''\<rparr>]"
  using checkGrammar_order [of "[0x3092, 0x3092, 0x3002, 0x898B, 0x308C, 0x308B]"
     "[\<lparr>text_s = [0x3092, 0x3092, 0x3002], start_s = 0, end_s = 3,
       tokens = [particleWo 0, particleWo 1]\<rparr>,
      \<lparr>text_s = [0x898B, 0x308C, 0x308B], start_s = 3, end_s = 6,
       tokens = [verbMi 3, suffixReru 4]\<rparr>]"
     "defaultConfig\<lparr>rules := (rules defaultConfig)\<lparr>adjacentParticles := False\<rparr>\<rparr>"]
  by (simp add: commaLimitOf_def adversativeGaOf_def duplicateParticleOf_def
      conjunctionRepeatOf_def raSingleOf_def raBigramOf_def rule_eval)

subsection \<open>Sentence segmenter\<close>

lemma split_loop_tokens:
  "concat (map tokens (splitSentences_loop text c cur ts)) = cur @ ts"
  by (induction ts arbitrary: c cur) (simp_all add: Let_def mkSentence_def)

lemma split_loop_each:
  "s \<in> set (splitSentences_loop text c cur ts) \<Longrightarrow>
     tokens s \<noteq> [] \<and> end_s s = tokenEnd (last (tokens s)) \<and>
     text_s s = slice text (start_s s) (end_s s)"
proof (induction ts arbitrary: c cur)
  case Nil
  then show ?case by (auto simp add: Let_def mkSentence_def tokenEnd_def split: if_splits)
next
  case (Cons t ts)
  show ?case
  proof (cases "isSentenceEnd t")
    case True
    with Cons.prems have "s = mkSentence text c (offset t + length (surface t)) (cur @ [t]) \<or>
        s \<in> set (splitSentences_loop text (offset t + length (surface t)) [] ts)"
      by (simp add: Let_def)
    then show ?thesis
    proof
      assume "s = mkSentence text c (offset t + length (surface t)) (cur @ [t])"
      then show ?thesis by (simp add: mkSentence_def tokenEnd_def)
    next
      assume "s \<in> set (splitSentences_loop text (offset t + length (surface t)) [] ts)"
      then show ?thesis by (rule Cons.IH)
    qed
  next
    case False
    with Cons.prems have "s \<in> set (splitSentences_loop text c (cur @ [t]) ts)"
      by (simp add: Let_def)
    then show ?thesis by (rule Cons.IH)
  qed
qed

lemma split_loop_contiguous:
  "contiguousFrom c (splitSentences_loop text c cur ts)"
  by (induction ts arbitrary: c cur) (simp_all add: Let_def mkSentence_def)

lemma split_loop_last:
  "cur @ ts \<noteq> [] \<Longrightarrow>
     splitSentences_loop text c cur ts \<noteq> [] \<and>
     end_s (last (splitSentences_loop text c cur ts)) = tokenEnd (last (cur @ ts))"
proof (induction ts arbitrary: c cur)
  case Nil
  then show ?case by (simp add: Let_def mkSentence_def tokenEnd_def)
next
  case (Cons t ts)
  show ?case
  proof (cases "isSentenceEnd t")
    case True
    note ender = this
    show ?thesis
    proof (cases ts)
      case Nil
      with ender show ?thesis by (simp add: Let_def mkSentence_def tokenEnd_def)
    next
      case (Cons u us)
      then have "[] @ ts \<noteq> []" by simp
      from Cons.IH [OF this, of "offset t + length (surface t)"] ender Cons
      show ?thesis by (simp add: Let_def)
    qed
  next
    case False
    have "(cur @ [t]) @ ts \<noteq> []" by simp
    from Cons.IH [OF this, of c] False show ?thesis by (simp add: Let_def)
  qed
qed

lemma orderedFrom_append:
  "orderedFrom c (xs @ ys) \<Longrightarrow> xs \<noteq> [] \<Longrightarrow>
     c \<le> offset (hd xs) \<and> c \<le> tokenEnd (last xs) \<and> orderedFrom (tokenEnd (last xs)) ys"
proof (induction xs arbitrary: c)
  case Nil
  then show ?case by simp
next
  case (Cons x xs)
  show ?case
  proof (cases xs)
    case Nil
    with Cons.prems show ?thesis by (simp add: tokenEnd_def)
  next
    case (Cons y ys')
    then have ne: "xs \<noteq> []" by simp
    from Cons.prems have "orderedFrom (tokenEnd x) (xs @ ys)" and "c \<le> offset x" by simp_all
    from Cons.IH [OF this(1) ne] this(2) ne show ?thesis
      by (simp add: tokenEnd_def)
  qed
qed

lemma gaplessFrom_append:
  "gaplessFrom c (xs @ ys) \<Longrightarrow> xs \<noteq> [] \<Longrightarrow>
     offset (hd xs) = c \<and> gaplessFrom (tokenEnd (last xs)) ys"
proof (induction xs arbitrary: c)
  case Nil
  then show ?case by simp
next
  case (Cons x xs)
  show ?case
  proof (cases xs)
    case Nil
    with Cons.prems show ?thesis by simp
  next
    case (Cons y ys')
    then have ne: "xs \<noteq> []" by simp
    from Cons.prems have "gaplessFrom (tokenEnd x) (xs @ ys)" and "offset x = c" by simp_all
    from Cons.IH [OF this(1) ne] this(2) ne show ?thesis by simp
  qed
qed

lemma split_loop_ordered:
  "orderedFrom c (cur @ ts) \<Longrightarrow> s \<in> set (splitSentences_loop text c cur ts) \<Longrightarrow>
     start_s s \<le> offset (hd (tokens s)) \<and> start_s s \<le> end_s s"
proof (induction ts arbitrary: c cur)
  case Nil
  then have ne: "cur \<noteq> []" and s: "s = mkSentence text c (tokenEnd (last cur)) cur"
    by (auto simp add: Let_def tokenEnd_def split: if_splits)
  from Nil.prems(1) have "orderedFrom c (cur @ [])" by simp
  from orderedFrom_append [OF this ne] s show ?case by (simp add: mkSentence_def)
next
  case (Cons t ts)
  have ord: "orderedFrom c ((cur @ [t]) @ ts)" using Cons.prems(1) by simp
  have ne: "cur @ [t] \<noteq> []" by simp
  note app = orderedFrom_append [OF ord ne]
  show ?case
  proof (cases "isSentenceEnd t")
    case True
    with Cons.prems(2) have "s = mkSentence text c (tokenEnd t) (cur @ [t]) \<or>
        s \<in> set (splitSentences_loop text (tokenEnd t) [] ts)"
      by (simp add: Let_def tokenEnd_def)
    then show ?thesis
    proof
      assume "s = mkSentence text c (tokenEnd t) (cur @ [t])"
      with app show ?thesis by (simp add: mkSentence_def)
    next
      assume mem: "s \<in> set (splitSentences_loop text (tokenEnd t) [] ts)"
      from app have "orderedFrom (tokenEnd t) ([] @ ts)" by simp
      from Cons.IH [OF this mem] show ?thesis .
    qed
  next
    case False
    with Cons.prems(2) have mem: "s \<in> set (splitSentences_loop text c (cur @ [t]) ts)"
      by (simp add: Let_def)
    from Cons.IH [OF ord mem] show ?thesis .
  qed
qed

lemma split_loop_gapless:
  "gaplessFrom c (cur @ ts) \<Longrightarrow> s \<in> set (splitSentences_loop text c cur ts) \<Longrightarrow>
     start_s s = offset (hd (tokens s))"
proof (induction ts arbitrary: c cur)
  case Nil
  then have ne: "cur \<noteq> []" and s: "s = mkSentence text c (tokenEnd (last cur)) cur"
    by (auto simp add: Let_def tokenEnd_def split: if_splits)
  from Nil.prems(1) have "gaplessFrom c (cur @ [])" by simp
  from gaplessFrom_append [OF this ne] s show ?case by (simp add: mkSentence_def)
next
  case (Cons t ts)
  have gl: "gaplessFrom c ((cur @ [t]) @ ts)" using Cons.prems(1) by simp
  have ne: "cur @ [t] \<noteq> []" by simp
  note app = gaplessFrom_append [OF gl ne]
  show ?case
  proof (cases "isSentenceEnd t")
    case True
    with Cons.prems(2) have "s = mkSentence text c (tokenEnd t) (cur @ [t]) \<or>
        s \<in> set (splitSentences_loop text (tokenEnd t) [] ts)"
      by (simp add: Let_def tokenEnd_def)
    then show ?thesis
    proof
      assume "s = mkSentence text c (tokenEnd t) (cur @ [t])"
      with app show ?thesis by (simp add: mkSentence_def)
    next
      assume mem: "s \<in> set (splitSentences_loop text (tokenEnd t) [] ts)"
      from app have "gaplessFrom (tokenEnd t) ([] @ ts)" by simp
      from Cons.IH [OF this mem] show ?thesis .
    qed
  next
    case False
    with Cons.prems(2) have mem: "s \<in> set (splitSentences_loop text c (cur @ [t]) ts)"
      by (simp add: Let_def)
    from Cons.IH [OF gl mem] show ?thesis .
  qed
qed


text \<open>
  C1, amended: for every text and every token sequence, each sentence produced by
  \<open>splitSentences\<close> has a non-empty token list, ends at the end of its last token
  (\<open>offset + surface.length\<close>) and carries the slice of the text between its start and
  its end; the tokens of the sentences, concatenated, are the input tokens; the first
  sentence starts at 0 and every later one at the end of its predecessor, so the sentences
  are contiguous and reach the end of the last token, a trailing sentence without
  terminator included. When no token starts before the end of its predecessor, every
  sentence starts at or before its first token and at or before its own end (no overlap);
  when the tokens leave no gap from offset 0 on, every sentence starts exactly at the
  offset of its first token.
\<close>

theorem splitSentences_invariants:
  "(\<forall>s \<in> set (splitSentences txt ts).
       tokens s \<noteq> [] \<and> end_s s = tokenEnd (last (tokens s)) \<and>
       text_s s = slice txt (start_s s) (end_s s))
   \<and> concat (map tokens (splitSentences txt ts)) = ts
   \<and> contiguousFrom 0 (splitSentences txt ts)
   \<and> (ts \<noteq> [] \<longrightarrow>
        splitSentences txt ts \<noteq> [] \<and>
        end_s (last (splitSentences txt ts)) = tokenEnd (last ts))
   \<and> (orderedFrom 0 ts \<longrightarrow>
        (\<forall>s \<in> set (splitSentences txt ts).
           start_s s \<le> offset (hd (tokens s)) \<and> start_s s \<le> end_s s))
   \<and> (gaplessFrom 0 ts \<longrightarrow>
        (\<forall>s \<in> set (splitSentences txt ts). start_s s = offset (hd (tokens s))))"
proof (intro conjI ballI impI)
  fix s assume "s \<in> set (splitSentences txt ts)"
  then have "s \<in> set (splitSentences_loop txt 0 [] ts)" by (simp add: splitSentences_def)
  from split_loop_each [OF this]
  show "tokens s \<noteq> []" and "end_s s = tokenEnd (last (tokens s))"
    and "text_s s = slice txt (start_s s) (end_s s)" by simp_all
next
  show "concat (map tokens (splitSentences txt ts)) = ts"
    by (simp add: splitSentences_def split_loop_tokens)
next
  show "contiguousFrom 0 (splitSentences txt ts)"
    by (simp add: splitSentences_def split_loop_contiguous)
next
  assume "ts \<noteq> []"
  then have "[] @ ts \<noteq> []" by simp
  from split_loop_last [OF this, of "txt" 0]
  show "splitSentences txt ts \<noteq> []"
    and "end_s (last (splitSentences txt ts)) = tokenEnd (last ts)"
    by (simp_all add: splitSentences_def)
next
  fix s assume "orderedFrom 0 ts" and "s \<in> set (splitSentences txt ts)"
  then have "orderedFrom 0 ([] @ ts)" and "s \<in> set (splitSentences_loop txt 0 [] ts)"
    by (simp_all add: splitSentences_def)
  from split_loop_ordered [OF this]
  show "start_s s \<le> offset (hd (tokens s))" and "start_s s \<le> end_s s" by simp_all
next
  fix s assume "gaplessFrom 0 ts" and "s \<in> set (splitSentences txt ts)"
  then have "gaplessFrom 0 ([] @ ts)" and "s \<in> set (splitSentences_loop txt 0 [] ts)"
    by (simp_all add: splitSentences_def)
  from split_loop_gapless [OF this]
  show "start_s s = offset (hd (tokens s))" .
qed

lemmas split_eval =
  splitSentences_def mkSentence_def isSentenceEnd_def sentenceEnders_def slice_def
  tokenEnd_def nounA_def fullStop_def exampleToken_def Let_def

text \<open>
  C1 as stated fails: for the text of a space followed by \<open>a\<close> and the single token
  \<open>a\<close> at offset 1 (a tokenizer that skips white space), the sentence starts at 0, not
  at the offset 1 of its first token.
\<close>

theorem splitSentences_start_counterexample:
  "splitSentences [0x20, 0x3042] [nounA 1] =
     [\<lparr>text_s = [0x20, 0x3042], start_s = 0, end_s = 2, tokens = [nounA 1]\<rparr>]
   \<and> offset (hd (tokens (hd (splitSentences [0x20, 0x3042] [nounA 1])))) = 1
   \<and> start_s (hd (splitSentences [0x20, 0x3042] [nounA 1])) \<noteq>
       offset (hd (tokens (hd (splitSentences [0x20, 0x3042] [nounA 1]))))"
  by (simp add: split_eval)

text \<open>
  A gap-free token sequence of two sentences, the second without terminator.
\<close>

theorem splitSentences_invariants_witness:
  "gaplessFrom 0 [nounA 0, fullStop 1, nounA 2] \<and>
   orderedFrom 0 [nounA 0, fullStop 1, nounA 2] \<and>
   splitSentences [0x3042, 0x3002, 0x3042] [nounA 0, fullStop 1, nounA 2] =
     [\<lparr>text_s = [0x3042, 0x3002], start_s = 0, end_s = 2, tokens = [nounA 0, fullStop 1]\<rparr>,
      \<lparr>text_s = [0x3042], start_s = 2, end_s = 3, tokens = [nounA 2]\<rparr>] \<and>
   list_all (\<lambda>s. start_s s = offset (hd (tokens s)) \<and> start_s s \<le> end_s s \<and>
                  end_s s = tokenEnd (last (tokens s)))
     (splitSentences [0x3042, 0x3002, 0x3042] [nounA 0, fullStop 1, nounA 2])"
proof -
  have g: "gaplessFrom 0 [nounA 0, fullStop 1, nounA 2]"
    and o: "orderedFrom 0 [nounA 0, fullStop 1, nounA 2]"
    by (simp_all add: split_eval)
  have v: "splitSentences [0x3042, 0x3002, 0x3042] [nounA 0, fullStop 1, nounA 2] =
     [\<lparr>text_s = [0x3042, 0x3002], start_s = 0, end_s = 2, tokens = [nounA 0, fullStop 1]\<rparr>,
      \<lparr>text_s = [0x3042], start_s = 2, end_s = 3, tokens = [nounA 2]\<rparr>]"
    by (simp add: split_eval)
  from splitSentences_invariants [of "[0x3042, 0x3002, 0x3042]" "[nounA 0, fullStop 1, nounA 2]"]
    g o
  have "list_all (\<lambda>s. start_s s = offset (hd (tokens s)) \<and> start_s s \<le> end_s s \<and>
                  end_s s = tokenEnd (last (tokens s)))
     (splitSentences [0x3042, 0x3002, 0x3042] [nounA 0, fullStop 1, nounA 2])"
    unfolding list_all_iff by blast
  with g o v show ?thesis by simp
qed

subsection \<open>Tokenizer adapter\<close>












text \<open>
  C9: while the tokenizer is not ready, \<open>tokenize\<close> fails with the error
  \<open>Tokenizer not initialized\<close> for every text, without calling the backend; after
  \<open>initializeTokenizer\<close> has returned successfully the tokenizer is ready and
  \<open>tokenize\<close> does not raise this error.
\<close>

theorem tokenize_requires_initialization:
  "(\<not> isTokenizerReady st \<longrightarrow> tokenize st txt = Inl TokenizerNotInitialized)
   \<and> (initializeTokenizer st build = (Inr (), st') \<longrightarrow>
        isTokenizerReady st' \<and> tokenize st' txt \<noteq> Inl TokenizerNotInitialized)"
proof (intro conjI impI)
  assume "\<not> isTokenizerReady st"
  then show "tokenize st txt = Inl TokenizerNotInitialized"
    by (simp add: isTokenizerReady_def tokenize_def)
next
  assume init: "initializeTokenizer st build = (Inr (), st')"
  then show ready: "isTokenizerReady st'"
    by (auto simp add: initializeTokenizer_def awaitInit_def isTokenizerReady_def
        split: option.splits build_promise.splits)
  then show "tokenize st' txt \<noteq> Inl TokenizerNotInitialized"
    by (auto simp add: isTokenizerReady_def tokenize_def split: option.splits)
qed

text \<open>
  From the initial state: the error before initialization, none after a successful build.
\<close>

theorem tokenize_requires_initialization_witness:
  "\<not> isTokenizerReady \<lparr>tokenizer = None, initPromise = None\<rparr>
   \<and> tokenize \<lparr>tokenizer = None, initPromise = None\<rparr> [0x3042] = Inl TokenizerNotInitialized
   \<and> initializeTokenizer \<lparr>tokenizer = None, initPromise = None\<rparr>
        (Resolved (fixedBackend [[0x3042]])) =
      (Inr (), \<lparr>tokenizer = Some (fixedBackend [[0x3042]]),
                initPromise = Some (Resolved (fixedBackend [[0x3042]]))\<rparr>)
   \<and> tokenize \<lparr>tokenizer = Some (fixedBackend [[0x3042]]),
               initPromise = Some (Resolved (fixedBackend [[0x3042]]))\<rparr> [0x3042] \<noteq>
      Inl TokenizerNotInitialized"
proof -
  have a: "\<not> isTokenizerReady \<lparr>tokenizer = None, initPromise = None\<rparr>"
    by (simp add: isTokenizerReady_def)
  have b: "initializeTokenizer \<lparr>tokenizer = None, initPromise = None\<rparr>
        (Resolved (fixedBackend [[0x3042]])) =
      (Inr (), \<lparr>tokenizer = Some (fixedBackend [[0x3042]]),
                initPromise = Some (Resolved (fixedBackend [[0x3042]]))\<rparr>)"
    by (simp add: initializeTokenizer_def awaitInit_def)
  from tokenize_requires_initialization [of "\<lparr>tokenizer = None, initPromise = None\<rparr>"
      "[0x3042]" "Resolved (fixedBackend [[0x3042]])"
      "\<lparr>tokenizer = Some (fixedBackend [[0x3042]]),
        initPromise = Some (Resolved (fixedBackend [[0x3042]]))\<rparr>"] a b
  have "tokenize \<lparr>tokenizer = None, initPromise = None\<rparr> [0x3042] =
      Inl TokenizerNotInitialized"
    and "tokenize \<lparr>tokenizer = Some (fixedBackend [[0x3042]]),
               initPromise = Some (Resolved (fixedBackend [[0x3042]]))\<rparr> [0x3042] \<noteq>
      Inl TokenizerNotInitialized"
    by blast+
  with a b show ?thesis by blast
qed

subsection \<open>Wikipedia lookup\<close>






subsection \<open>Comment extraction\<close>

lemma traverse_preorder:
  "traverse l m stack = concat (map (astCandidate l m) (preorder stack))"
  by (induction l m stack rule: traverse.induct) simp_all

lemma astCandidate_cases:
  "astCandidate l m n =
     (if isCandidateNode l n \<and> m \<le> calculateJapaneseRatio (sanitizeComment (nodeText n) l)
      then [astRange l n] else [])"
  by (simp add: astCandidate_def isCandidateNode_def astRange_def Let_def)

lemma traverse_filter:
  "traverse l m stack =
     map (astRange l)
       (filter (\<lambda>n. m \<le> calculateJapaneseRatio (sanitizeComment (nodeText n) l))
          (filter (isCandidateNode l) (preorder stack)))"
proof -
  have "traverse l m stack =
      concat (map (\<lambda>n. if isCandidateNode l n \<and>
          m \<le> calculateJapaneseRatio (sanitizeComment (nodeText n) l)
        then [astRange l n] else []) (preorder stack))"
  proof -
    have "astCandidate l m = (\<lambda>n. if isCandidateNode l n \<and>
          m \<le> calculateJapaneseRatio (sanitizeComment (nodeText n) l)
        then [astRange l n] else [])"
      by (rule ext) (rule astCandidate_cases)
    then show ?thesis by (simp only: traverse_preorder)
  qed
  also have "\<dots> = map (astRange l)
      (filter (\<lambda>n. isCandidateNode l n \<and>
          m \<le> calculateJapaneseRatio (sanitizeComment (nodeText n) l)) (preorder stack))"
    by (rule concat_map_if)
  finally show ?thesis by (simp add: conj_commute)
qed

lemma regexCandidate_cases:
  "regexCandidate m =
     (if calculateJapaneseRatio (removeMarkers (snd m)) > 1 / 10 then [regexRange m] else [])"
  by (simp add: regexCandidate_def regexRange_def Let_def)

lemma regex_matches_filter:
  "concat (map regexCandidate ms) =
     map regexRange (filter (\<lambda>m. calculateJapaneseRatio (removeMarkers (snd m)) > 1 / 10) ms)"
proof -
  have "regexCandidate = (\<lambda>m. if calculateJapaneseRatio (removeMarkers (snd m)) > 1 / 10
      then [regexRange m] else [])"
    by (rule ext) (rule regexCandidate_cases)
  then have "concat (map regexCandidate ms) =
      concat (map (\<lambda>m. if calculateJapaneseRatio (removeMarkers (snd m)) > 1 / 10
        then [regexRange m] else []) ms)"
    by (simp only:)
  also have "\<dots> = map regexRange
      (filter (\<lambda>m. calculateJapaneseRatio (removeMarkers (snd m)) > 1 / 10) ms)"
    by (rule concat_map_if)
  finally show ?thesis .
qed

lemma regex_patterns_filter:
  "concat (map (\<lambda>p. concat (map regexCandidate (execAll p t))) ps) =
     map regexRange
       (filter (\<lambda>m. calculateJapaneseRatio (removeMarkers (snd m)) > 1 / 10)
          (concat (map (\<lambda>p. execAll p t) ps)))"
  by (induction ps) (simp_all add: regex_matches_filter)

text \<open>
  C3, amended: the AST strategy visits the nodes depth first and keeps a comment or
  docstring node iff the ratio of its sanitized text is at least \<open>minJapaneseRatio\<close>
  (0.1 when the argument is absent); it returns nothing when the grammar does not load
  and fails when the parser does not exist. The regex strategy has no threshold argument:
  it keeps a match iff the ratio of its text without markers is strictly greater than the
  constant 0.1; a language id without patterns gives nothing. The texts compared with
  the thresholds come from different post-processing: \<open>sanitizeComment\<close> (by language,
  with removal of leading asterisks and \<open>trim\<close>) and \<open>removeMarkers\<close> (all marker
  replacements, no \<open>trim\<close>).
\<close>

theorem extraction_thresholds:
  "(parserInstance ts \<and> loadLanguage ts lang = Some parse \<longrightarrow>
      extractCommentsWithTreeSitter ts doc lang minArg =
        Inr (map (astRange lang)
          (filter (\<lambda>n. orElse minArg (1 / 10) \<le>
                         calculateJapaneseRatio (sanitizeComment (nodeText n) lang))
             (filter (isCandidateNode lang) (preorder [parse doc])))))
   \<and> (parserInstance ts \<and> loadLanguage ts lang = None \<longrightarrow>
      extractCommentsWithTreeSitter ts doc lang minArg = Inr [])
   \<and> (\<not> parserInstance ts \<longrightarrow>
      extractCommentsWithTreeSitter ts doc lang minArg = Inl TreeSitterNotInitialized)
   \<and> (patterns lang = Some ps \<longrightarrow>
      extractComments doc lang =
        map regexRange
          (filter (\<lambda>m. calculateJapaneseRatio (removeMarkers (snd m)) > 1 / 10)
             (concat (map (\<lambda>p. execAll p doc) ps))))
   \<and> (patterns lang = None \<longrightarrow> extractComments doc lang = [])"
  by (simp add: extractCommentsWithTreeSitter_def extractComments_def traverse_filter
      regex_patterns_filter)


text \<open>
  C3 as stated fails. The regex strategy does not know the threshold: a line comment
  whose text has ratio 0.2 is kept by it, while the AST strategy with threshold 0.5
  discards it. For a line comment with a trailing space the two strategies produce
  different texts (the regex strategy keeps the space). And for a text with ratio exactly
  0.1, the default threshold, the regex strategy discards the candidate and the AST
  strategy keeps it.
\<close>

theorem extraction_thresholds_counterexample:
  "calculateJapaneseRatio (removeMarkers fifthComment) = 1 / 5
   \<and> extractComments fifthComment ''javascript'' =
       [\<lparr>start_c = 0, end_c = 8, text_c = [0x3042, 0x61, 0x61, 0x61, 0x61],
         original = fifthComment\<rparr>]
   \<and> extractCommentsWithTreeSitter wholeTextComment fifthComment ''javascript''
        (Some (1 / 2)) = Inr []
   \<and> removeMarkers trailingSpaceComment = [0x3042, 0x20]
   \<and> sanitizeComment trailingSpaceComment ''javascript'' = [0x3042]
   \<and> calculateJapaneseRatio (removeMarkers tenthComment) = 1 / 10
   \<and> calculateJapaneseRatio (sanitizeComment tenthComment ''javascript'') = 1 / 10
   \<and> extractComments tenthComment ''javascript'' = []
   \<and> extractCommentsWithTreeSitter wholeTextComment tenthComment ''javascript'' None =
       Inr [\<lparr>start_c = 0, end_c = 13,
             text_c = [0x3042, 0x61, 0x61, 0x61, 0x61, 0x61, 0x61, 0x61, 0x61, 0x61],
             original = tenthComment\<rparr>]"
proof (intro conjI)
  show "calculateJapaneseRatio (removeMarkers fifthComment) = 1 / 5" by code_simp
  show "extractComments fifthComment ''javascript'' =
       [\<lparr>start_c = 0, end_c = 8, text_c = [0x3042, 0x61, 0x61, 0x61, 0x61],
         original = fifthComment\<rparr>]" by code_simp
  show "extractCommentsWithTreeSitter wholeTextComment fifthComment ''javascript''
        (Some (1 / 2)) = Inr []" by code_simp
  show "removeMarkers trailingSpaceComment = [0x3042, 0x20]" by code_simp
  show "sanitizeComment trailingSpaceComment ''javascript'' = [0x3042]" by code_simp
  show "calculateJapaneseRatio (removeMarkers tenthComment) = 1 / 10" by code_simp
  show "calculateJapaneseRatio (sanitizeComment tenthComment ''javascript'') = 1 / 10"
    by code_simp
  show "extractComments tenthComment ''javascript'' = []" by code_simp
  show "extractCommentsWithTreeSitter wholeTextComment tenthComment ''javascript'' None =
       Inr [\<lparr>start_c = 0, end_c = 13,
             text_c = [0x3042, 0x61, 0x61, 0x61, 0x61, 0x61, 0x61, 0x61, 0x61, 0x61],
             original = tenthComment\<rparr>]" by code_simp
qed

text \<open>
  Both strategies on the line comment with a trailing space, the AST strategy with
  threshold 0.5.
\<close>

theorem extraction_thresholds_witness:
  "parserInstance wholeTextComment
   \<and> loadLanguage wholeTextComment ''javascript'' =
       Some (\<lambda>text. Node ''program'' text 0 (length text)
                       [Node ''comment'' text 0 (length text) []])
   \<and> patterns ''javascript'' = Some cFamilyPatterns
   \<and> extractCommentsWithTreeSitter wholeTextComment trailingSpaceComment ''javascript''
        (Some (1 / 2)) =
       Inr [\<lparr>start_c = 0, end_c = 5, text_c = [0x3042], original = trailingSpaceComment\<rparr>]
   \<and> Inr (map (astRange ''javascript'')
         (filter (\<lambda>n. orElse (Some (1 / 2)) (1 / 10) \<le>
                        calculateJapaneseRatio (sanitizeComment (nodeText n) ''javascript''))
            (filter (isCandidateNode ''javascript'')
               (preorder [Node ''program'' trailingSpaceComment 0 (length trailingSpaceComment)
                  [Node ''comment'' trailingSpaceComment 0 (length trailingSpaceComment) []]]))))
       = (Inr [\<lparr>start_c = 0, end_c = 5, text_c = [0x3042], original = trailingSpaceComment\<rparr>]
          :: extract_error + commentRange list)
   \<and> extractComments trailingSpaceComment ''javascript'' =
       [\<lparr>start_c = 0, end_c = 5, text_c = [0x3042, 0x20], original = trailingSpaceComment\<rparr>]
   \<and> map regexRange
         (filter (\<lambda>m. calculateJapaneseRatio (removeMarkers (snd m)) > 1 / 10)
            (concat (map (\<lambda>p. execAll p trailingSpaceComment) cFamilyPatterns))) =
       [\<lparr>start_c = 0, end_c = 5, text_c = [0x3042, 0x20], original = trailingSpaceComment\<rparr>]"
proof -
  have a: "parserInstance wholeTextComment"
    by (simp add: wholeTextComment_def)
  have l: "loadLanguage wholeTextComment ''javascript'' =
      Some (\<lambda>text. Node ''program'' text 0 (length text)
                      [Node ''comment'' text 0 (length text) []])"
    by (simp add: wholeTextComment_def loadLanguage_def languageGrammarMap_def)
  have b: "patterns ''javascript'' = Some cFamilyPatterns"
    by (simp add: patterns_def)
  have ast: "extractCommentsWithTreeSitter wholeTextComment trailingSpaceComment ''javascript''
        (Some (1 / 2)) =
       Inr [\<lparr>start_c = 0, end_c = 5, text_c = [0x3042], original = trailingSpaceComment\<rparr>]"
    by code_simp
  have rx: "extractComments trailingSpaceComment ''javascript'' =
       [\<lparr>start_c = 0, end_c = 5, text_c = [0x3042, 0x20], original = trailingSpaceComment\<rparr>]"
    by code_simp
  note inst = extraction_thresholds [where lang = "''javascript''" and ps = cFamilyPatterns
      and doc = trailingSpaceComment and ts = wholeTextComment and minArg = "Some (1 / 2)"]
  from inst [THEN conjunct1, THEN mp, OF conjI, OF a l] ast
  have d1: "Inr (map (astRange ''javascript'')
         (filter (\<lambda>n. orElse (Some (1 / 2)) (1 / 10) \<le>
                        calculateJapaneseRatio (sanitizeComment (nodeText n) ''javascript''))
            (filter (isCandidateNode ''javascript'')
               (preorder [Node ''program'' trailingSpaceComment 0 (length trailingSpaceComment)
                  [Node ''comment'' trailingSpaceComment 0 (length trailingSpaceComment) []]]))))
       = (Inr [\<lparr>start_c = 0, end_c = 5, text_c = [0x3042], original = trailingSpaceComment\<rparr>]
          :: extract_error + commentRange list)"
    by (simp only:)
  from inst [THEN conjunct2, THEN conjunct2, THEN conjunct2, THEN conjunct1, THEN mp, OF b] rx
  have d2: "map regexRange
         (filter (\<lambda>m. calculateJapaneseRatio (removeMarkers (snd m)) > 1 / 10)
            (concat (map (\<lambda>p. execAll p trailingSpaceComment) cFamilyPatterns))) =
       [\<lparr>start_c = 0, end_c = 5, text_c = [0x3042, 0x20], original = trailingSpaceComment\<rparr>]"
    by (simp only:)
  from a l b ast d1 rx d2 show ?thesis by (intro conjI)
qed

end
